theory Spec2Isabelle
  imports Main "HOL-Library.Word" "HOL-Library.AList"
begin

section \<open>Host values and exceptions\<close>

text \<open>
  The bindings exchange \<^verbatim>\<open>VALUE\<close>s with the Ruby runtime. Only the shapes the code of
  \<^verbatim>\<open>common.c\<close>, \<^verbatim>\<open>common.h\<close> and \<^verbatim>\<open>network.c\<close> distinguishes are kept: \<^verbatim>\<open>nil\<close>,
  the two booleans, integers (Fixnum and Bignum alike, unbounded), floats, strings,
  symbols (standing for any object without an implicit conversion to a number or a
  string), arrays and wrapped native pointers (\<^verbatim>\<open>T_DATA\<close>). The type variable
  \<open>'d\<close> is the C type \<^verbatim>\<open>double\<close>, which is left abstract. Hashes, which the code
  reads and builds, have a type of their own below.
\<close>

datatype 'd rvalue =
    Qnil
  | Qtrue
  | Qfalse
  | RInteger int
  | RFloat 'd
  | RString string
  | RSymbol string
  | RArray "'d rvalue list"
  | RData nat

datatype exc_class =
    rb_eArgError
  | rb_eTypeError
  | rb_eRangeError
  | rb_eNoMemError
  | rb_eSystemCallError
  | e_Error
  | e_RetrieveError
  | e_DefinitionError
  | e_NoSupportError

record 'd rb_exception =
  klass :: exc_class
  mesg :: string
  ivars :: "(string \<times> 'd rvalue) list"

type_synonym ('d, 'a) result = "'d rb_exception + 'a"

definition rb_exc_new2 :: "exc_class \<Rightarrow> string \<Rightarrow> 'd rb_exception" where
  "rb_exc_new2 error msg = \<lparr>klass = error, mesg = msg, ivars = []\<rparr>"

definition rb_raise :: "exc_class \<Rightarrow> string \<Rightarrow> ('d, 'a) result" where
  "rb_raise error msg = Inl (rb_exc_new2 error msg)"

definition rb_iv_set :: "'d rb_exception \<Rightarrow> string \<Rightarrow> 'd rvalue \<Rightarrow> 'd rb_exception" where
  "rb_iv_set obj name v = obj\<lparr>ivars := AList.update name v (ivars obj)\<rparr>"

definition rb_iv_get :: "'d rb_exception \<Rightarrow> string \<Rightarrow> 'd rvalue" where
  "rb_iv_get obj name = (case map_of (ivars obj) name of None \<Rightarrow> Qnil | Some v \<Rightarrow> v)"

definition NIL_P :: "'d rvalue \<Rightarrow> bool" where
  "NIL_P v = (v = Qnil)"

text \<open>
  The runtime can raise inside the calls the code guards with \<^verbatim>\<open>rb_protect\<close> (typically
  for lack of memory). Which of them raise is an input of the model: \<open>None\<close> means the
  call goes through. The indexed ones are asked with the loop index of the call.
  The two conversions between integers and \<^verbatim>\<open>double\<close> are inputs as well:
  \<open>dbl_of_int\<close> is the C cast, \<open>dbl_trunc\<close> truncates towards zero and has no result
  for a NaN or an infinity.
\<close>

record 'd host =
  asprintf_fails :: bool
  exc_new2_fault :: "'d rb_exception option"
  ary_new2_fault :: "'d rb_exception option"
  str_new2_fault :: "nat \<Rightarrow> 'd rb_exception option"
  ary_store_fault :: "nat \<Rightarrow> 'd rb_exception option"
  ary_push_fault :: "nat \<Rightarrow> 'd rb_exception option"
  dbl_of_int :: "int \<Rightarrow> 'd"
  dbl_trunc :: "'d \<Rightarrow> int option"

section \<open>Error translation (\<^verbatim>\<open>ruby_libvirt_create_error\<close>)\<close>

text \<open>
  \<^verbatim>\<open>virError\<close> as far as the translator reads it; \<open>message = None\<close> is the null pointer.
  The native library keeps one last error per thread and one per connection; a
  connection is identified by its (non-null) pointer.
\<close>

record virError =
  code :: int
  domain :: int
  level :: int
  message :: "string option"

record err_state =
  virGetLastError :: "virError option"
  virConnGetLastError :: "nat \<Rightarrow> virError option"

definition ruby_libvirt_create_error ::
  "'d host \<Rightarrow> err_state \<Rightarrow> exc_class \<Rightarrow> string \<Rightarrow> nat option \<Rightarrow> ('d, 'd rb_exception) result" where
  "ruby_libvirt_create_error h es error method conn =
     (let err = (case conn of None \<Rightarrow> virGetLastError es
                 | Some c \<Rightarrow> virConnGetLastError es c);
          msg = (case err of
                   None \<Rightarrow> ''Call to '' @ method @ '' failed''
                 | Some e \<Rightarrow>
                     (case message e of
                        None \<Rightarrow> ''Call to '' @ method @ '' failed''
                      | Some m \<Rightarrow> ''Call to '' @ method @ '' failed: '' @ m))
      in if asprintf_fails h then rb_raise rb_eNoMemError ''failed to allocate memory''
         else
           (case exc_new2_fault h of
              Some x \<Rightarrow> Inl x
            | None \<Rightarrow>
                (let ruby_errinfo = rb_exc_new2 error msg;
                     ruby_errinfo = rb_iv_set ruby_errinfo ''@libvirt_function_name''
                                      (RString method)
                 in case err of
                      None \<Rightarrow> Inr ruby_errinfo
                    | Some e \<Rightarrow>
                        (let ruby_errinfo = rb_iv_set ruby_errinfo ''@libvirt_code''
                                              (RInteger (code e));
                             ruby_errinfo = rb_iv_set ruby_errinfo ''@libvirt_component''
                                              (RInteger (domain e));
                             ruby_errinfo = rb_iv_set ruby_errinfo ''@libvirt_level''
                                              (RInteger (level e))
                         in case message e of
                              None \<Rightarrow> Inr ruby_errinfo
                            | Some m \<Rightarrow>
                                Inr (rb_iv_set ruby_errinfo ''@libvirt_message''
                                       (RString m))))))"

text \<open>
  The macro \<^verbatim>\<open>_E(cond, excep)\<close> and the \<^verbatim>\<open>rb_exc_raise(ruby_libvirt_create_error(...))\<close>
  it expands to, for a true condition. The connection argument is an expression of the
  caller (\<^verbatim>\<open>connect_get(n)\<close>, from \<^verbatim>\<open>connect.c\<close>) that is evaluated first and may raise
  itself; its outcome is a parameter.
\<close>

definition raise_error ::
  "'d host \<Rightarrow> err_state \<Rightarrow> exc_class \<Rightarrow> string \<Rightarrow> ('d, nat option) result \<Rightarrow> ('d, 'a) result" where
  "raise_error h es error method conn =
     (case conn of
        Inl x \<Rightarrow> Inl x
      | Inr c \<Rightarrow>
          (case ruby_libvirt_create_error h es error method c of
             Inl x \<Rightarrow> Inl x
           | Inr excep \<Rightarrow> Inl excep))"

section \<open>List materialisation\<close>

text \<open>
  What the list code does to native memory and to the runtime is recorded as a trace.
  Entries of a string list are named by their index, raw handles by their pointer.
\<close>

datatype mem_event =
    AryNew2 nat
  | StrNew2 nat
  | AryStore nat
  | XFree nat
  | NewFunc nat
  | AryPush nat
  | FreeFunc nat
  | FreeList

definition ruby_libvirt_ary_new2_wrap :: "'d host \<Rightarrow> nat \<Rightarrow> ('d, 'd rvalue list) result" where
  "ruby_libvirt_ary_new2_wrap h num =
     (case ary_new2_fault h of Some x \<Rightarrow> Inl x | None \<Rightarrow> Inr [])"

text \<open>\<^verbatim>\<open>rb_str_new2\<close> raises on a null pointer (\<open>None\<close>).\<close>

definition ruby_libvirt_str_new2_wrap ::
  "'d host \<Rightarrow> nat \<Rightarrow> string option \<Rightarrow> ('d, 'd rvalue) result" where
  "ruby_libvirt_str_new2_wrap h i str =
     (case str_new2_fault h i of
        Some x \<Rightarrow> Inl x
      | None \<Rightarrow>
          (case str of
             None \<Rightarrow> rb_raise rb_eArgError ''NULL pointer given''
           | Some s \<Rightarrow> Inr (RString s)))"

text \<open>\<^verbatim>\<open>rb_ary_store\<close> pads the array with \<^verbatim>\<open>nil\<close> when the index is past its end.\<close>

definition rb_ary_store :: "'d rvalue list \<Rightarrow> nat \<Rightarrow> 'd rvalue \<Rightarrow> 'd rvalue list" where
  "rb_ary_store arr index elem =
     (if index < length arr then arr[index := elem]
      else arr @ replicate (index - length arr) Qnil @ [elem])"

definition ruby_libvirt_ary_store_wrap ::
  "'d host \<Rightarrow> 'd rvalue list \<Rightarrow> nat \<Rightarrow> 'd rvalue \<Rightarrow> ('d, 'd rvalue list) result" where
  "ruby_libvirt_ary_store_wrap h arr index elem =
     (case ary_store_fault h index of
        Some x \<Rightarrow> Inl x
      | None \<Rightarrow> Inr (rb_ary_store arr index elem))"

definition ruby_libvirt_ary_push_wrap ::
  "'d host \<Rightarrow> nat \<Rightarrow> 'd rvalue list \<Rightarrow> 'd rvalue \<Rightarrow> ('d, 'd rvalue list) result" where
  "ruby_libvirt_ary_push_wrap h i arr v =
     (case ary_push_fault h i of Some x \<Rightarrow> Inl x | None \<Rightarrow> Inr (arr @ [v]))"

subsection \<open>\<^verbatim>\<open>ruby_libvirt_generate_list\<close>\<close>

text \<open>
  The arguments \<^verbatim>\<open>(int num, char **list)\<close> are one HOL list, \<^verbatim>\<open>num\<close> being its length.
  The loop returns how it ended, the value of \<^verbatim>\<open>i\<close> at that moment and the trace so far;
  \<open>Inl\<close> is a \<^verbatim>\<open>goto exception\<close>.
\<close>

function generate_list_loop ::
  "'d host \<Rightarrow> string option list \<Rightarrow> nat \<Rightarrow> 'd rvalue list \<Rightarrow> mem_event list \<Rightarrow>
     ('d, 'd rvalue list) result \<times> nat \<times> mem_event list" where
  "generate_list_loop h list i result tr =
     (if i < length list then
        (case ruby_libvirt_str_new2_wrap h i (list ! i) of
           Inl x \<Rightarrow> (Inl x, i, tr @ [StrNew2 i])
         | Inr elem \<Rightarrow>
             (case ruby_libvirt_ary_store_wrap h result i elem of
                Inl x \<Rightarrow> (Inl x, i, tr @ [StrNew2 i, AryStore i])
              | Inr result' \<Rightarrow>
                  generate_list_loop h list (Suc i) result'
                    (tr @ [StrNew2 i, AryStore i, XFree i])))
      else (Inr result, i, tr))"
  by pat_completeness auto
termination
  by (relation "measure (\<lambda>(h, list, i, result, tr). length list - i)") auto

declare generate_list_loop.simps [simp del]

text \<open>The label \<^verbatim>\<open>exception:\<close> frees the entries from \<^verbatim>\<open>i\<close> on and re-raises.\<close>

definition generate_list_exception ::
  "string option list \<Rightarrow> nat \<Rightarrow> 'd rb_exception \<Rightarrow> mem_event list \<Rightarrow>
     ('d, 'd rvalue) result \<times> mem_event list" where
  "generate_list_exception list i x tr = (Inl x, tr @ map XFree [i..<length list])"

definition ruby_libvirt_generate_list ::
  "'d host \<Rightarrow> string option list \<Rightarrow> ('d, 'd rvalue) result \<times> mem_event list" where
  "ruby_libvirt_generate_list h list =
     (let num = length list
      in case ruby_libvirt_ary_new2_wrap h num of
           Inl x \<Rightarrow> generate_list_exception list 0 x [AryNew2 num]
         | Inr result \<Rightarrow>
             (case generate_list_loop h list 0 result [AryNew2 num] of
                (Inl x, i, tr) \<Rightarrow> generate_list_exception list i x tr
              | (Inr result', i, tr) \<Rightarrow> (Inr (RArray result'), tr)))"

subsection \<open>The macro \<^verbatim>\<open>gen_list_all\<close>\<close>

text \<open>
  \<^verbatim>\<open>common.h\<close> declares \<^verbatim>\<open>integer_default_if_nil\<close>; \<^verbatim>\<open>common.c\<close> holds its body under
  the name \<^verbatim>\<open>ruby_libvirt_fixnum_set\<close>.
\<close>

definition integer_default_if_nil :: "'d rvalue \<Rightarrow> int \<Rightarrow> 'd rvalue" where
  "integer_default_if_nil v def = (if NIL_P v then RInteger def else v)"

text \<open>
  \<^verbatim>\<open>newfunc\<close> is called outside \<^verbatim>\<open>rb_protect\<close>: when it raises, control leaves the macro at
  once (\<open>Propagate\<close>). A raise inside \<^verbatim>\<open>rb_protect\<close> jumps to the label (\<open>Goto_exception\<close>).
\<close>

datatype ('x, 'a) loop_exit = Propagate 'x | Goto_exception 'x | Fallthrough 'a

function gen_list_all_loop ::
  "'d host \<Rightarrow> (nat \<Rightarrow> ('d, 'd rvalue) result) \<Rightarrow> nat list \<Rightarrow> nat \<Rightarrow> 'd rvalue list \<Rightarrow>
     mem_event list \<Rightarrow> ('d rb_exception, 'd rvalue list) loop_exit \<times> mem_event list" where
  "gen_list_all_loop h newfunc list i result tr =
     (if i < length list then
        (case newfunc (list ! i) of
           Inl x \<Rightarrow> (Propagate x, tr @ [NewFunc (list ! i)])
         | Inr v \<Rightarrow>
             (case ruby_libvirt_ary_push_wrap h i result v of
                Inl x \<Rightarrow> (Goto_exception x, tr @ [NewFunc (list ! i), AryPush i])
              | Inr result' \<Rightarrow>
                  gen_list_all_loop h newfunc list (Suc i) result'
                    (tr @ [NewFunc (list ! i), AryPush i])))
      else (Fallthrough result, tr))"
  by pat_completeness auto
termination
  by (relation "measure (\<lambda>(h, newfunc, list, i, result, tr). length list - i)") auto

declare gen_list_all_loop.simps [simp del]

text \<open>The label \<^verbatim>\<open>exception:\<close> of the macro starts again at \<^verbatim>\<open>i = 0\<close>.\<close>

definition gen_list_all_exception ::
  "nat list \<Rightarrow> 'd rb_exception \<Rightarrow> mem_event list \<Rightarrow> ('d, 'd rvalue) result \<times> mem_event list" where
  "gen_list_all_exception list x tr = (Inl x, tr @ map FreeFunc list @ [FreeList])"

text \<open>
  \<^verbatim>\<open>listfunc\<close> returns a negative count (\<open>None\<close>) or the array it allocated, whose length
  is the count \<^verbatim>\<open>ret\<close>. \<open>listfunc_name\<close> is the stringified macro argument.
\<close>

definition gen_list_all ::
  "'d host \<Rightarrow> err_state \<Rightarrow> 'd rvalue list \<Rightarrow> string \<Rightarrow> ('d rvalue \<Rightarrow> nat list option) \<Rightarrow>
     ('d, nat option) result \<Rightarrow> (nat \<Rightarrow> ('d, 'd rvalue) result) \<Rightarrow>
     ('d, 'd rvalue) result \<times> mem_event list" where
  "gen_list_all h es argv listfunc_name listfunc conn newfunc =
     (if 1 < length argv then (rb_raise rb_eArgError ''wrong number of arguments'', [])
      else
        (let flags = integer_default_if_nil (case argv of [] \<Rightarrow> Qnil | f # _ \<Rightarrow> f) 0
         in case listfunc flags of
              None \<Rightarrow> (raise_error h es e_RetrieveError listfunc_name conn, [])
            | Some list \<Rightarrow>
                (case ruby_libvirt_ary_new2_wrap h (length list) of
                   Inl x \<Rightarrow> gen_list_all_exception list x [AryNew2 (length list)]
                 | Inr result \<Rightarrow>
                     (case gen_list_all_loop h newfunc list 0 result [AryNew2 (length list)] of
                        (Propagate x, tr) \<Rightarrow> (Inl x, tr)
                      | (Goto_exception x, tr) \<Rightarrow> gen_list_all_exception list x tr
                      | (Fallthrough result', tr) \<Rightarrow>
                          (Inr (RArray result'), tr @ [FreeList])))))"

section \<open>Typed parameters\<close>

subsection \<open>Conversions of the Ruby C API\<close>

text \<open>
  The numeric conversions as the runtime defines them on a platform with 32-bit
  \<^verbatim>\<open>int\<close> and 64-bit \<^verbatim>\<open>long long\<close>: an Integer or a Float is accepted and range-checked
  (the unsigned conversions accept negative numbers down to the signed minimum and wrap
  them), anything else is a \<^verbatim>\<open>TypeError\<close>. The texts of the messages the runtime
  raises are not modelled, only their classes.
\<close>

definition rb_num2integer :: "'d host \<Rightarrow> 'd rvalue \<Rightarrow> ('d, int) result" where
  "rb_num2integer h v =
     (case v of
        RInteger n \<Rightarrow> Inr n
      | RFloat d \<Rightarrow>
          (case dbl_trunc h d of
             None \<Rightarrow> rb_raise rb_eRangeError ''float out of range of integer''
           | Some n \<Rightarrow> Inr n)
      | _ \<Rightarrow> rb_raise rb_eTypeError ''no implicit conversion into Integer'')"

definition check_range :: "int \<Rightarrow> int \<Rightarrow> ('d, int) result \<Rightarrow> ('d, 'w::len word) result" where
  "check_range lo hi r =
     (case r of
        Inl x \<Rightarrow> Inl x
      | Inr n \<Rightarrow>
          if lo \<le> n \<and> n < hi then Inr (word_of_int n)
          else rb_raise rb_eRangeError ''integer out of range'')"

definition NUM2INT :: "'d host \<Rightarrow> 'd rvalue \<Rightarrow> ('d, 32 word) result" where
  "NUM2INT h v = check_range (- (2 ^ 31)) (2 ^ 31) (rb_num2integer h v)"

definition NUM2UINT :: "'d host \<Rightarrow> 'd rvalue \<Rightarrow> ('d, 32 word) result" where
  "NUM2UINT h v = check_range (- (2 ^ 31)) (2 ^ 32) (rb_num2integer h v)"

definition NUM2LL :: "'d host \<Rightarrow> 'd rvalue \<Rightarrow> ('d, 64 word) result" where
  "NUM2LL h v = check_range (- (2 ^ 63)) (2 ^ 63) (rb_num2integer h v)"

definition NUM2ULL :: "'d host \<Rightarrow> 'd rvalue \<Rightarrow> ('d, 64 word) result" where
  "NUM2ULL h v = check_range (- (2 ^ 63)) (2 ^ 64) (rb_num2integer h v)"

definition NUM2DBL :: "'d host \<Rightarrow> 'd rvalue \<Rightarrow> ('d, 'd) result" where
  "NUM2DBL h v =
     (case v of
        RFloat d \<Rightarrow> Inr d
      | RInteger n \<Rightarrow> Inr (dbl_of_int h n)
      | _ \<Rightarrow> rb_raise rb_eTypeError ''no implicit conversion to float'')"

definition StringValueCStr :: "'d rvalue \<Rightarrow> ('d, string option) result" where
  "StringValueCStr v =
     (case v of
        RString s \<Rightarrow>
          if CHR 0x00 \<in> set s then rb_raise rb_eArgError ''string contains null byte''
          else Inr (Some s)
      | _ \<Rightarrow> rb_raise rb_eTypeError ''no implicit conversion into String'')"

definition INT2NUM :: "32 word \<Rightarrow> 'd rvalue" where
  "INT2NUM i = RInteger (sint i)"

definition UINT2NUM :: "32 word \<Rightarrow> 'd rvalue" where
  "UINT2NUM ui = RInteger (uint ui)"

definition LL2NUM :: "64 word \<Rightarrow> 'd rvalue" where
  "LL2NUM l = RInteger (sint l)"

definition ULL2NUM :: "64 word \<Rightarrow> 'd rvalue" where
  "ULL2NUM ul = RInteger (uint ul)"

text \<open>
  A Ruby hash is its entries in insertion order (storing under an existing key keeps the
  key's position) and its answer for a missing key, \<open>ifnone\<close>: the default value or the
  default block given to \<^verbatim>\<open>Hash.new\<close>, as a function of the key that returns a value or
  raises. What a default block answers for a key is taken not to change between two
  lookups. A hash made by \<^verbatim>\<open>rb_hash_new\<close> or written as a literal answers \<^verbatim>\<open>nil\<close>.
\<close>

record 'd rhash =
  entries :: "('d rvalue \<times> 'd rvalue) list"
  ifnone :: "'d rvalue \<Rightarrow> ('d, 'd rvalue) result"

definition rb_hash_new :: "'d rhash" where
  "rb_hash_new = \<lparr>entries = [], ifnone = (\<lambda>key. Inr Qnil)\<rparr>"

text \<open>\<^verbatim>\<open>rb_hash_aref\<close> is \<^verbatim>\<open>Hash#[]\<close>: the stored value, or the default for a missing key.\<close>

definition rb_hash_aref :: "'d rhash \<Rightarrow> 'd rvalue \<Rightarrow> ('d, 'd rvalue) result" where
  "rb_hash_aref hash key =
     (case map_of (entries hash) key of Some v \<Rightarrow> Inr v | None \<Rightarrow> ifnone hash key)"

definition rb_hash_aset :: "'d rhash \<Rightarrow> 'd rvalue \<Rightarrow> 'd rvalue \<Rightarrow> 'd rhash" where
  "rb_hash_aset hash key val = hash\<lparr>entries := AList.update key val (entries hash)\<rparr>"

definition RHASH_SIZE :: "'d rhash \<Rightarrow> nat" where
  "RHASH_SIZE hash = length (entries hash)"

text \<open>An argument that \<^verbatim>\<open>Check_Type(input, T_HASH)\<close> inspects: a hash, or another object.\<close>

datatype 'd hash_arg = Hash "'d rhash" | NoHash "'d rvalue"

subsection \<open>The native parameter slot\<close>


datatype 'd typed_value =
    V_INT "32 word"
  | V_UINT "32 word"
  | V_LLONG "64 word"
  | V_ULLONG "64 word"
  | V_DOUBLE 'd
  | V_BOOLEAN "8 word"
  | V_STRING "string option"
  | V_other int


record 'd virTypedParameter =
  field :: string
  tvalue :: "'d typed_value"

subsection \<open>Decoding: \<^verbatim>\<open>ruby_libvirt_params_to_hash\<close>\<close>

text \<open>The \<^verbatim>\<open>switch\<close> of the loop body.\<close>

fun params_to_hash_val :: "'d typed_value \<Rightarrow> ('d, 'd rvalue) result" where
  "params_to_hash_val (V_INT i) = Inr (INT2NUM i)"
| "params_to_hash_val (V_UINT ui) = Inr (UINT2NUM ui)"
| "params_to_hash_val (V_LLONG l) = Inr (LL2NUM l)"
| "params_to_hash_val (V_ULLONG ul) = Inr (ULL2NUM ul)"
| "params_to_hash_val (V_DOUBLE d) = Inr (RFloat d)"
| "params_to_hash_val (V_BOOLEAN b) = Inr (if b = 0 then Qfalse else Qtrue)"
| "params_to_hash_val (V_STRING s) =
     (case s of
        None \<Rightarrow> rb_raise rb_eArgError ''NULL pointer given''
      | Some str \<Rightarrow> Inr (RString str))"
| "params_to_hash_val (V_other t) = rb_raise rb_eArgError ''Invalid parameter type''"

text \<open>The arguments \<^verbatim>\<open>(params, nparams)\<close> are one list.\<close>

fun ruby_libvirt_params_to_hash ::
  "'d virTypedParameter list \<Rightarrow> 'd rhash \<Rightarrow> ('d, 'd rhash) result" where
  "ruby_libvirt_params_to_hash [] hash = Inr hash"
| "ruby_libvirt_params_to_hash (p # params) hash =
     (case params_to_hash_val (tvalue p) of
        Inl x \<Rightarrow> Inl x
      | Inr val \<Rightarrow>
          ruby_libvirt_params_to_hash params (rb_hash_aset hash (RString (field p)) val))"

subsection \<open>The callbacks and \<^verbatim>\<open>ruby_libvirt_get_typed_parameters\<close>\<close>

text \<open>
  The three callbacks belong to the caller. \<open>nparams_cb\<close> returns an error name or
  \<open>None\<close>, and the count it stored; \<open>get_cb\<close> is given the count and returns an error
  name or \<open>None\<close>, and the buffer as it left it (the count it stores back is the
  buffer's length); \<open>set_cb\<close> is given the buffer. The arguments \<^verbatim>\<open>d\<close> and \<^verbatim>\<open>opaque\<close>
  are passed through unread and are part of the callbacks here. Each call is recorded.
  The value \<^verbatim>\<open>ruby_libvirt_get_typed_parameters\<close> returns is always a hash.
\<close>

datatype 'd cb_event =
    Nparams_cb "32 word"
  | Get_cb "32 word" int
  | Set_cb "32 word" "'d virTypedParameter list"

definition ruby_libvirt_get_typed_parameters ::
  "'d host \<Rightarrow> err_state \<Rightarrow> ('d, nat option) result \<Rightarrow> 32 word \<Rightarrow>
     (32 word \<Rightarrow> string option \<times> int) \<Rightarrow>
     (32 word \<Rightarrow> int \<Rightarrow> string option \<times> 'd virTypedParameter list) \<Rightarrow>
     ('d, 'd rhash) result \<times> 'd cb_event list" where
  "ruby_libvirt_get_typed_parameters h es conn flags nparams_cb get_cb =
     (case nparams_cb flags of
        (Some errname, nparams) \<Rightarrow>
          (raise_error h es e_RetrieveError errname conn, [Nparams_cb flags])
      | (None, nparams) \<Rightarrow>
          if nparams = 0 then (Inr rb_hash_new, [Nparams_cb flags])
          else
            (case get_cb flags nparams of
               (Some errname, params) \<Rightarrow>
                 (raise_error h es e_RetrieveError errname conn,
                  [Nparams_cb flags, Get_cb flags nparams])
             | (None, params) \<Rightarrow>
                 (case ruby_libvirt_params_to_hash params rb_hash_new of
                    Inl x \<Rightarrow> (Inl x, [Nparams_cb flags, Get_cb flags nparams])
                  | Inr result \<Rightarrow>
                      (Inr result, [Nparams_cb flags, Get_cb flags nparams]))))"

subsection \<open>Encoding: \<^verbatim>\<open>ruby_libvirt_set_typed_parameters\<close>\<close>

text \<open>The \<^verbatim>\<open>switch\<close> of the overlay loop: the slot's tag selects the conversion.\<close>

fun set_typed_parameters_val ::
  "'d host \<Rightarrow> 'd typed_value \<Rightarrow> 'd rvalue \<Rightarrow> ('d, 'd typed_value) result" where
  "set_typed_parameters_val h (V_INT i) val =
     (case NUM2INT h val of Inl x \<Rightarrow> Inl x | Inr i' \<Rightarrow> Inr (V_INT i'))"
| "set_typed_parameters_val h (V_UINT ui) val =
     (case NUM2UINT h val of Inl x \<Rightarrow> Inl x | Inr ui' \<Rightarrow> Inr (V_UINT ui'))"
| "set_typed_parameters_val h (V_LLONG l) val =
     (case NUM2LL h val of Inl x \<Rightarrow> Inl x | Inr l' \<Rightarrow> Inr (V_LLONG l'))"
| "set_typed_parameters_val h (V_ULLONG ul) val =
     (case NUM2ULL h val of Inl x \<Rightarrow> Inl x | Inr ul' \<Rightarrow> Inr (V_ULLONG ul'))"
| "set_typed_parameters_val h (V_DOUBLE d) val =
     (case NUM2DBL h val of Inl x \<Rightarrow> Inl x | Inr d' \<Rightarrow> Inr (V_DOUBLE d'))"
| "set_typed_parameters_val h (V_BOOLEAN b) val =
     Inr (V_BOOLEAN (if val = Qtrue then 1 else 0))"
| "set_typed_parameters_val h (V_STRING s) val =
     (case StringValueCStr val of Inl x \<Rightarrow> Inl x | Inr s' \<Rightarrow> Inr (V_STRING s'))"
| "set_typed_parameters_val h (V_other t) val =
     rb_raise rb_eArgError ''Invalid parameter type''"

text \<open>
  The overlay loop (\<^verbatim>\<open>for (i = 0; i < nparams; i++)\<close>). The buffer is a local of the
  function: when the lookup or a conversion raises, the buffer is gone with the frame.
\<close>

fun set_typed_parameters_loop ::
  "'d host \<Rightarrow> 'd rhash \<Rightarrow> 'd virTypedParameter list \<Rightarrow> ('d, 'd virTypedParameter list) result" where
  "set_typed_parameters_loop h input [] = Inr []"
| "set_typed_parameters_loop h input (p # params) =
     (case rb_hash_aref input (RString (field p)) of
        Inl x \<Rightarrow> Inl x
      | Inr val \<Rightarrow>
          if NIL_P val then
            (case set_typed_parameters_loop h input params of
               Inl x \<Rightarrow> Inl x
             | Inr params' \<Rightarrow> Inr (p # params'))
          else
            (case set_typed_parameters_val h (tvalue p) val of
               Inl x \<Rightarrow> Inl x
             | Inr tv \<Rightarrow>
                 (case set_typed_parameters_loop h input params of
                    Inl x \<Rightarrow> Inl x
                  | Inr params' \<Rightarrow> Inr (p\<lparr>tvalue := tv\<rparr> # params'))))"

definition ruby_libvirt_set_typed_parameters ::
  "'d host \<Rightarrow> err_state \<Rightarrow> ('d, nat option) result \<Rightarrow> 'd hash_arg \<Rightarrow> 32 word \<Rightarrow>
     (32 word \<Rightarrow> string option \<times> int) \<Rightarrow>
     (32 word \<Rightarrow> int \<Rightarrow> string option \<times> 'd virTypedParameter list) \<Rightarrow>
     (32 word \<Rightarrow> 'd virTypedParameter list \<Rightarrow> string option) \<Rightarrow>
     ('d, 'd rvalue) result \<times> 'd cb_event list" where
  "ruby_libvirt_set_typed_parameters h es conn input flags nparams_cb get_cb set_cb =
     (case input of
        Hash hash \<Rightarrow>
          if RHASH_SIZE hash = 0 then (Inr Qnil, [])
          else
            (case nparams_cb flags of
               (Some errname, nparams) \<Rightarrow>
                 (raise_error h es e_RetrieveError errname conn, [Nparams_cb flags])
             | (None, nparams) \<Rightarrow>
                 (case get_cb flags nparams of
                    (Some errname, params) \<Rightarrow>
                      (raise_error h es e_RetrieveError errname conn,
                       [Nparams_cb flags, Get_cb flags nparams])
                  | (None, params) \<Rightarrow>
                      (case set_typed_parameters_loop h hash params of
                         Inl x \<Rightarrow> (Inl x, [Nparams_cb flags, Get_cb flags nparams])
                       | Inr params' \<Rightarrow>
                           (case set_cb flags params' of
                              Some errname \<Rightarrow>
                                (raise_error h es e_RetrieveError errname conn,
                                 [Nparams_cb flags, Get_cb flags nparams, Set_cb flags params'])
                            | None \<Rightarrow>
                                (Inr Qnil,
                                 [Nparams_cb flags, Get_cb flags nparams,
                                  Set_cb flags params'])))))
      | NoHash v \<Rightarrow> (rb_raise rb_eTypeError ''wrong argument type (expected Hash)'', []))"

section \<open>Native handles and the methods of \<^verbatim>\<open>network.c\<close>\<close>

text \<open>
  A handle is the \<^verbatim>\<open>T_DATA\<close> object made by \<^verbatim>\<open>ruby_libvirt_new_class\<close>: the wrapped
  pointer (\<open>None\<close> is \<^verbatim>\<open>NULL\<close>) and the instance variable \<^verbatim>\<open>@connection\<close>.
\<close>

record 'd handle =
  ptr :: "nat option"
  connection :: "'d rvalue"

definition ruby_libvirt_new_class :: "nat option \<Rightarrow> 'd rvalue \<Rightarrow> 'd handle" where
  "ruby_libvirt_new_class p conn = \<lparr>ptr = p, connection = conn\<rparr>"

definition generic_get :: "string \<Rightarrow> 'd handle \<Rightarrow> ('d, nat) result" where
  "generic_get kind v =
     (case ptr v of
        None \<Rightarrow> rb_raise rb_eArgError (kind @ '' has been freed'')
      | Some p \<Rightarrow> Inr p)"

definition network_get :: "'d handle \<Rightarrow> ('d, nat) result" where
  "network_get n = generic_get ''Network'' n"

text \<open>
  The functions of the native library that \<^verbatim>\<open>network.c\<close> calls. Their results are
  inputs; a call is recorded with the pointer it was given. Functions with an out
  parameter return it beside the status.
\<close>

record libvirt =
  virNetworkUndefine :: "nat \<Rightarrow> int"
  virNetworkCreate :: "nat \<Rightarrow> int"
  virNetworkUpdate :: "nat \<Rightarrow> 32 word \<Rightarrow> 32 word \<Rightarrow> 32 word \<Rightarrow> string \<Rightarrow> 32 word \<Rightarrow> int"
  virNetworkDestroy :: "nat \<Rightarrow> int"
  virNetworkGetName :: "nat \<Rightarrow> string option"
  virNetworkGetUUIDString :: "nat \<Rightarrow> int \<times> string"
  virNetworkGetXMLDesc :: "nat \<Rightarrow> 32 word \<Rightarrow> string option"
  virNetworkGetBridgeName :: "nat \<Rightarrow> string option"
  virNetworkGetAutostart :: "nat \<Rightarrow> int \<times> int"
  virNetworkSetAutostart :: "nat \<Rightarrow> int \<Rightarrow> int"
  virNetworkFree :: "nat \<Rightarrow> int"
  virNetworkIsActive :: "nat \<Rightarrow> int"
  virNetworkIsPersistent :: "nat \<Rightarrow> int"

datatype net_event = NativeCall string nat | XFreeStr

subsection \<open>The call macros of \<^verbatim>\<open>common.h\<close>\<close>

text \<open>
  \<open>args\<close> is the outcome of evaluating the argument expressions of the native call: an
  exception, or the object pointer with the other arguments. \<open>conn\<close> is the outcome of
  the connection expression, which \<^verbatim>\<open>_E\<close> evaluates only when the call failed.
\<close>

definition gen_call_void ::
  "'d host \<Rightarrow> err_state \<Rightarrow> string \<Rightarrow> ('d, nat option) result \<Rightarrow> ('d, nat \<times> 'a) result \<Rightarrow>
     (nat \<Rightarrow> 'a \<Rightarrow> int) \<Rightarrow> ('d, 'd rvalue) result \<times> net_event list" where
  "gen_call_void h es func_name conn args func =
     (case args of
        Inl x \<Rightarrow> (Inl x, [])
      | Inr (p, a) \<Rightarrow>
          (let r = func p a
           in if r < 0 then (raise_error h es e_Error func_name conn, [NativeCall func_name p])
              else (Inr Qnil, [NativeCall func_name p])))"

definition gen_call_truefalse ::
  "'d host \<Rightarrow> err_state \<Rightarrow> string \<Rightarrow> ('d, nat option) result \<Rightarrow> ('d, nat \<times> 'a) result \<Rightarrow>
     (nat \<Rightarrow> 'a \<Rightarrow> int) \<Rightarrow> ('d, 'd rvalue) result \<times> net_event list" where
  "gen_call_truefalse h es func_name conn args func =
     (case args of
        Inl x \<Rightarrow> (Inl x, [])
      | Inr (p, a) \<Rightarrow>
          (let r = func p a
           in if r < 0 then (raise_error h es e_Error func_name conn, [NativeCall func_name p])
              else (Inr (if r \<noteq> 0 then Qtrue else Qfalse), [NativeCall func_name p])))"

definition gen_call_string ::
  "'d host \<Rightarrow> err_state \<Rightarrow> string \<Rightarrow> ('d, nat option) result \<Rightarrow> bool \<Rightarrow>
     ('d, nat \<times> 'a) result \<Rightarrow> (nat \<Rightarrow> 'a \<Rightarrow> string option) \<Rightarrow>
     ('d, 'd rvalue) result \<times> net_event list" where
  "gen_call_string h es func_name conn dealloc args func =
     (case args of
        Inl x \<Rightarrow> (Inl x, [])
      | Inr (p, a) \<Rightarrow>
          (case func p a of
             None \<Rightarrow> (raise_error h es e_Error func_name conn, [NativeCall func_name p])
           | Some str \<Rightarrow>
               if dealloc then
                 (ruby_libvirt_str_new2_wrap h 0 (Some str), [NativeCall func_name p, XFreeStr])
               else (Inr (RString str), [NativeCall func_name p])))"

text \<open>\<^verbatim>\<open>gen_call_free\<close> also returns the handle, whose pointer it may have cleared.\<close>

definition gen_call_free ::
  "'d host \<Rightarrow> err_state \<Rightarrow> string \<Rightarrow> ('d, nat option) result \<Rightarrow> (nat \<Rightarrow> int) \<Rightarrow> 'd handle \<Rightarrow>
     ('d, 'd rvalue) result \<times> 'd handle \<times> net_event list" where
  "gen_call_free h es kind conn free_func s =
     (case ptr s of
        Some p \<Rightarrow>
          (let r = free_func p
           in if r < 0 then
                (raise_error h es e_Error (''vir'' @ kind @ ''Free'') conn, s,
                 [NativeCall (''vir'' @ kind @ ''Free'') p])
              else (Inr Qnil, s\<lparr>ptr := None\<rparr>, [NativeCall (''vir'' @ kind @ ''Free'') p]))
      | None \<Rightarrow> (Inr Qnil, s, []))"

subsection \<open>The methods\<close>

definition bind_result :: "('d, 'a) result \<Rightarrow> ('a \<Rightarrow> ('d, 'b) result) \<Rightarrow> ('d, 'b) result" where
  "bind_result r f = (case r of Inl x \<Rightarrow> Inl x | Inr a \<Rightarrow> f a)"

definition StringValuePtr :: "'d rvalue \<Rightarrow> ('d, string) result" where
  "StringValuePtr v =
     (case v of
        RString s \<Rightarrow> Inr s
      | _ \<Rightarrow> rb_raise rb_eTypeError ''no implicit conversion into String'')"

text \<open>
  Where a native call has several argument expressions that can raise, C does not fix
  the order in which they are evaluated. The model takes the order least favourable to
  the handle check: the conversions of the other arguments first, \<^verbatim>\<open>network_get\<close> last.
\<close>

definition libvirt_netw_undefine ::
  "'d host \<Rightarrow> err_state \<Rightarrow> libvirt \<Rightarrow> ('d, nat option) result \<Rightarrow> 'd handle \<Rightarrow>
     ('d, 'd rvalue) result \<times> net_event list" where
  "libvirt_netw_undefine h es lv conn n =
     gen_call_void h es ''virNetworkUndefine'' conn
       (bind_result (network_get n) (\<lambda>p. Inr (p, ())))
       (\<lambda>p a. virNetworkUndefine lv p)"

definition libvirt_netw_create ::
  "'d host \<Rightarrow> err_state \<Rightarrow> libvirt \<Rightarrow> ('d, nat option) result \<Rightarrow> 'd handle \<Rightarrow>
     ('d, 'd rvalue) result \<times> net_event list" where
  "libvirt_netw_create h es lv conn n =
     gen_call_void h es ''virNetworkCreate'' conn
       (bind_result (network_get n) (\<lambda>p. Inr (p, ())))
       (\<lambda>p a. virNetworkCreate lv p)"

definition libvirt_netw_update ::
  "'d host \<Rightarrow> err_state \<Rightarrow> libvirt \<Rightarrow> ('d, nat option) result \<Rightarrow> 'd handle \<Rightarrow>
     'd rvalue \<Rightarrow> 'd rvalue \<Rightarrow> 'd rvalue \<Rightarrow> 'd rvalue \<Rightarrow> 'd rvalue \<Rightarrow>
     ('d, 'd rvalue) result \<times> net_event list" where
  "libvirt_netw_update h es lv conn n command section_arg index xml flags =
     gen_call_void h es ''virNetworkUpdate'' conn
       (bind_result (NUM2UINT h command) (\<lambda>c.
        bind_result (NUM2UINT h section_arg) (\<lambda>s.
        bind_result (NUM2INT h index) (\<lambda>i.
        bind_result (StringValuePtr xml) (\<lambda>x.
        bind_result (NUM2UINT h flags) (\<lambda>f.
        bind_result (network_get n) (\<lambda>p. Inr (p, (c, s, i, x, f)))))))))
       (\<lambda>p (c, s, i, x, f). virNetworkUpdate lv p c s i x f)"

definition libvirt_netw_destroy ::
  "'d host \<Rightarrow> err_state \<Rightarrow> libvirt \<Rightarrow> ('d, nat option) result \<Rightarrow> 'd handle \<Rightarrow>
     ('d, 'd rvalue) result \<times> net_event list" where
  "libvirt_netw_destroy h es lv conn n =
     gen_call_void h es ''virNetworkDestroy'' conn
       (bind_result (network_get n) (\<lambda>p. Inr (p, ())))
       (\<lambda>p a. virNetworkDestroy lv p)"

definition libvirt_netw_name ::
  "'d host \<Rightarrow> err_state \<Rightarrow> libvirt \<Rightarrow> ('d, nat option) result \<Rightarrow> 'd handle \<Rightarrow>
     ('d, 'd rvalue) result \<times> net_event list" where
  "libvirt_netw_name h es lv conn n =
     gen_call_string h es ''virNetworkGetName'' conn False
       (bind_result (network_get n) (\<lambda>p. Inr (p, ())))
       (\<lambda>p a. virNetworkGetName lv p)"

definition libvirt_netw_uuid ::
  "'d host \<Rightarrow> err_state \<Rightarrow> libvirt \<Rightarrow> ('d, nat option) result \<Rightarrow> 'd handle \<Rightarrow>
     ('d, 'd rvalue) result \<times> net_event list" where
  "libvirt_netw_uuid h es lv conn n =
     (case network_get n of
        Inl x \<Rightarrow> (Inl x, [])
      | Inr netw \<Rightarrow>
          (case virNetworkGetUUIDString lv netw of
             (r, uuid) \<Rightarrow>
               if r < 0 then
                 (raise_error h es e_RetrieveError ''virNetworkGetUUIDString'' conn,
                  [NativeCall ''virNetworkGetUUIDString'' netw])
               else (Inr (RString uuid), [NativeCall ''virNetworkGetUUIDString'' netw])))"

text \<open>\<^verbatim>\<open>rb_scan_args(argc, argv, "01", &flags)\<close> accepts at most one argument.\<close>

definition libvirt_netw_xml_desc ::
  "'d host \<Rightarrow> err_state \<Rightarrow> libvirt \<Rightarrow> ('d, nat option) result \<Rightarrow> 'd rvalue list \<Rightarrow> 'd handle \<Rightarrow>
     ('d, 'd rvalue) result \<times> net_event list" where
  "libvirt_netw_xml_desc h es lv conn argv n =
     (if 1 < length argv then (rb_raise rb_eArgError ''wrong number of arguments'', [])
      else
        (let flags = integer_default_if_nil (case argv of [] \<Rightarrow> Qnil | f # _ \<Rightarrow> f) 0
         in gen_call_string h es ''virNetworkGetXMLDesc'' conn True
              (bind_result (NUM2UINT h flags) (\<lambda>f.
               bind_result (network_get n) (\<lambda>p. Inr (p, f))))
              (\<lambda>p f. virNetworkGetXMLDesc lv p f)))"

definition libvirt_netw_bridge_name ::
  "'d host \<Rightarrow> err_state \<Rightarrow> libvirt \<Rightarrow> ('d, nat option) result \<Rightarrow> 'd handle \<Rightarrow>
     ('d, 'd rvalue) result \<times> net_event list" where
  "libvirt_netw_bridge_name h es lv conn n =
     gen_call_string h es ''virNetworkGetBridgeName'' conn True
       (bind_result (network_get n) (\<lambda>p. Inr (p, ())))
       (\<lambda>p a. virNetworkGetBridgeName lv p)"

definition libvirt_netw_autostart ::
  "'d host \<Rightarrow> err_state \<Rightarrow> libvirt \<Rightarrow> ('d, nat option) result \<Rightarrow> 'd handle \<Rightarrow>
     ('d, 'd rvalue) result \<times> net_event list" where
  "libvirt_netw_autostart h es lv conn n =
     (case network_get n of
        Inl x \<Rightarrow> (Inl x, [])
      | Inr netw \<Rightarrow>
          (case virNetworkGetAutostart lv netw of
             (r, autostart) \<Rightarrow>
               if r < 0 then
                 (raise_error h es e_RetrieveError ''virNetworkAutostart'' conn,
                  [NativeCall ''virNetworkGetAutostart'' netw])
               else (Inr (if autostart \<noteq> 0 then Qtrue else Qfalse),
                     [NativeCall ''virNetworkGetAutostart'' netw])))"

definition libvirt_netw_autostart_set ::
  "'d host \<Rightarrow> err_state \<Rightarrow> libvirt \<Rightarrow> ('d, nat option) result \<Rightarrow> 'd handle \<Rightarrow> 'd rvalue \<Rightarrow>
     ('d, 'd rvalue) result \<times> net_event list" where
  "libvirt_netw_autostart_set h es lv conn n autostart =
     (if autostart \<noteq> Qtrue \<and> autostart \<noteq> Qfalse then
        (rb_raise rb_eTypeError ''wrong argument type (expected TrueClass or FalseClass)'', [])
      else
        gen_call_void h es ''virNetworkSetAutostart'' conn
          (bind_result (network_get n) (\<lambda>p. Inr (p, if autostart = Qtrue then 1 else 0)))
          (\<lambda>p a. virNetworkSetAutostart lv p a))"

definition libvirt_netw_free ::
  "'d host \<Rightarrow> err_state \<Rightarrow> libvirt \<Rightarrow> ('d, nat option) result \<Rightarrow> 'd handle \<Rightarrow>
     ('d, 'd rvalue) result \<times> 'd handle \<times> net_event list" where
  "libvirt_netw_free h es lv conn n =
     gen_call_free h es ''Network'' conn (virNetworkFree lv) n"

definition libvirt_netw_active_p ::
  "'d host \<Rightarrow> err_state \<Rightarrow> libvirt \<Rightarrow> ('d, nat option) result \<Rightarrow> 'd handle \<Rightarrow>
     ('d, 'd rvalue) result \<times> net_event list" where
  "libvirt_netw_active_p h es lv conn n =
     gen_call_truefalse h es ''virNetworkIsActive'' conn
       (bind_result (network_get n) (\<lambda>p. Inr (p, ())))
       (\<lambda>p a. virNetworkIsActive lv p)"

definition libvirt_netw_persistent_p ::
  "'d host \<Rightarrow> err_state \<Rightarrow> libvirt \<Rightarrow> ('d, nat option) result \<Rightarrow> 'd handle \<Rightarrow>
     ('d, 'd rvalue) result \<times> net_event list" where
  "libvirt_netw_persistent_p h es lv conn n =
     gen_call_truefalse h es ''virNetworkIsPersistent'' conn
       (bind_result (network_get n) (\<lambda>p. Inr (p, ())))
       (\<lambda>p a. virNetworkIsPersistent lv p)"

section \<open>Reading traces, and sample inputs\<close>

text \<open>The indices of the entries a trace frees with \<^verbatim>\<open>xfree\<close>, in the order of the calls.\<close>

fun freed :: "mem_event \<Rightarrow> nat list" where
  "freed (XFree k) = [k]"
| "freed e = []"

definition xfrees :: "mem_event list \<Rightarrow> nat list" where
  "xfrees tr = concat (map freed tr)"

text \<open>One round of the conversion loop that went through: convert, store, free.\<close>

definition entry_done :: "nat \<Rightarrow> mem_event list" where
  "entry_done k = [StrNew2 k, AryStore k, XFree k]"

text \<open>
  A runtime in which nothing raises, and a native library that has recorded no error.
  The examples take whole numbers for the doubles.
\<close>

definition quiet_host :: "int host" where
  "quiet_host =
     \<lparr>asprintf_fails = False, exc_new2_fault = None, ary_new2_fault = None,
      str_new2_fault = (\<lambda>i. None), ary_store_fault = (\<lambda>i. None),
      ary_push_fault = (\<lambda>i. None), dbl_of_int = (\<lambda>n. n), dbl_trunc = (\<lambda>d. Some d)\<rparr>"

definition no_errors :: err_state where
  "no_errors = \<lparr>virGetLastError = None, virConnGetLastError = (\<lambda>c. None)\<rparr>"

definition out_of_memory :: "int rb_exception" where
  "out_of_memory = rb_exc_new2 rb_eNoMemError ''failed to allocate memory''"

definition sample_errors :: err_state where
  "sample_errors =
     \<lparr>virGetLastError = Some \<lparr>code = 1, domain = 0, level = 2, message = Some ''internal error''\<rparr>,
      virConnGetLastError =
        (\<lambda>c. if c = 7 then Some \<lparr>code = 38, domain = 19, level = 2, message = None\<rparr> else None)\<rparr>"

text \<open>A native library in which every call on a network succeeds.\<close>

definition sample_libvirt :: libvirt where
  "sample_libvirt =
     \<lparr>virNetworkUndefine = (\<lambda>p. 0), virNetworkCreate = (\<lambda>p. 0),
      virNetworkUpdate = (\<lambda>p c s i x f. 0), virNetworkDestroy = (\<lambda>p. 0),
      virNetworkGetName = (\<lambda>p. Some ''default''),
      virNetworkGetUUIDString = (\<lambda>p. (0, ''6c1d4b2e-0000-4000-8000-00000000002a'')),
      virNetworkGetXMLDesc = (\<lambda>p f. Some ''<network/>''),
      virNetworkGetBridgeName = (\<lambda>p. Some ''virbr0''),
      virNetworkGetAutostart = (\<lambda>p. (0, 1)), virNetworkSetAutostart = (\<lambda>p a. 0),
      virNetworkFree = (\<lambda>p. 0), virNetworkIsActive = (\<lambda>p. 1),
      virNetworkIsPersistent = (\<lambda>p. 1)\<rparr>"

text \<open>A hash written as a literal: the given entries, \<^verbatim>\<open>nil\<close> for a missing key.\<close>

definition plain_hash :: "('d rvalue \<times> 'd rvalue) list \<Rightarrow> 'd rhash" where
  "plain_hash es = \<lparr>entries = es, ifnone = (\<lambda>key. Inr Qnil)\<rparr>"




subsection \<open>Notions used to state the properties of the codec\<close>

text \<open>
  What the overlay loop does to one slot: nothing when the lookup gives \<^verbatim>\<open>nil\<close>, else the
  conversion the slot's tag selects.
\<close>

definition overlaid :: "'d host \<Rightarrow> 'd rhash \<Rightarrow> 'd virTypedParameter \<Rightarrow> 'd virTypedParameter \<Rightarrow> bool" where
  "overlaid h input p p' \<longleftrightarrow>
     (case rb_hash_aref input (RString (field p)) of
        Inl x \<Rightarrow> False
      | Inr val \<Rightarrow>
          if val = Qnil then p' = p
          else field p' = field p \<and> set_typed_parameters_val h (tvalue p) val = Inr (tvalue p'))"





section \<open>Properties of the list materialiser\<close>

lemma xfrees_simps:
  "xfrees [] = []"
  "xfrees (XFree k # t) = k # xfrees t"
  "xfrees (AryNew2 n # t) = xfrees t"
  "xfrees (StrNew2 k # t) = xfrees t"
  "xfrees (AryStore k # t) = xfrees t"
  by (simp_all add: xfrees_def)

lemma xfrees_append: "xfrees (a @ b) = xfrees a @ xfrees b"
  by (simp add: xfrees_def)

lemma xfrees_done: "xfrees (concat (map entry_done ks)) = ks"
  by (induction ks) (simp_all add: xfrees_def entry_done_def)

lemma xfrees_map_XFree: "xfrees (map XFree ks) = ks"
  by (induction ks) (simp_all add: xfrees_def)

lemma upt_split: "i \<le> n \<Longrightarrow> [0..<i] @ [i..<n] = [0..<n]"
  using upt_add_eq_append[of 0 i "n - i"] by simp

lemma FreeList_notin_entry_done: "FreeList \<notin> set (concat (map entry_done ks))"
  by (induction ks) (simp_all add: entry_done_def)

text \<open>
  The trace of the conversion loop: full rounds for the indices before the exit, and at a
  jump to the label the calls of the round that raised.
\<close>

lemma generate_list_loop_trace:
  "generate_list_loop h list i result tr = (res, j, tr') \<Longrightarrow> i \<le> length list \<Longrightarrow>
     i \<le> j \<and> j \<le> length list \<and>
     (case res of
        Inr r \<Rightarrow> j = length list \<and> tr' = tr @ concat (map entry_done [i..<j])
      | Inl x \<Rightarrow> j < length list \<and>
          (tr' = tr @ concat (map entry_done [i..<j]) @ [StrNew2 j] \<or>
           tr' = tr @ concat (map entry_done [i..<j]) @ [StrNew2 j, AryStore j]))"
proof (induction h list i result tr arbitrary: res j tr' rule: generate_list_loop.induct)
  case (1 h list i result tr)
  note eq = "1.prems"(1)[unfolded generate_list_loop.simps[of h list i result tr]]
  show ?case
  proof (cases "i < length list")
    case False
    with eq "1.prems"(2) have "res = Inr result" "j = i" "tr' = tr" "i = length list"
      by auto
    then show ?thesis by simp
  next
    case True
    note lt = this
    show ?thesis
    proof (cases "ruby_libvirt_str_new2_wrap h i (list ! i)")
      case (Inl x)
      with lt eq have "res = Inl x" "j = i" "tr' = tr @ [StrNew2 i]" by auto
      with lt show ?thesis by simp
    next
      case (Inr elem)
      note el = this
      show ?thesis
      proof (cases "ruby_libvirt_ary_store_wrap h result i elem")
        case (Inl x)
        with lt el eq have "res = Inl x" "j = i" "tr' = tr @ [StrNew2 i, AryStore i]" by auto
        with lt show ?thesis by simp
      next
        case (Inr result')
        with lt el eq
        have rec: "generate_list_loop h list (Suc i) result' (tr @ [StrNew2 i, AryStore i, XFree i])
                     = (res, j, tr')"
          by simp
        from lt have le: "Suc i \<le> length list" by simp
        note ih = "1.IH"[OF lt el Inr rec le]
        then have ij: "i < j" by simp
        have cc: "concat (map entry_done [i..<j]) = entry_done i @ concat (map entry_done [Suc i..<j])"
          using ij by (simp add: upt_conv_Cons)
        show ?thesis
        proof (cases res)
          case (Inl x)
          with ih ij cc show ?thesis by (simp add: entry_done_def)
        next
          case (Inr r)
          with ih ij cc show ?thesis by (simp add: entry_done_def)
        qed
      qed
    qed
  qed
qed

text \<open>The array a completed loop returns holds the converted entries, in order.\<close>

lemma generate_list_loop_value:
  "generate_list_loop h list i result tr = (Inr r, j, tr') \<Longrightarrow> length result = i \<Longrightarrow>
     length r = max i (length list) \<and> take i r = result \<and>
     (\<forall>k. i \<le> k \<and> k < length list \<longrightarrow> list ! k \<noteq> None \<and> r ! k = RString (the (list ! k)))"
proof (induction h list i result tr arbitrary: r j tr' rule: generate_list_loop.induct)
  case (1 h list i result tr)
  note eq = "1.prems"(1)[unfolded generate_list_loop.simps[of h list i result tr]]
  show ?case
  proof (cases "i < length list")
    case False
    with eq "1.prems"(2) show ?thesis by auto
  next
    case True
    note lt = this
    from lt eq obtain elem where el: "ruby_libvirt_str_new2_wrap h i (list ! i) = Inr elem"
      by (cases "ruby_libvirt_str_new2_wrap h i (list ! i)") auto
    from lt eq el obtain result' where st: "ruby_libvirt_ary_store_wrap h result i elem = Inr result'"
      by (cases "ruby_libvirt_ary_store_wrap h result i elem") auto
    from lt eq el st
    have rec: "generate_list_loop h list (Suc i) result' (tr @ [StrNew2 i, AryStore i, XFree i])
                 = (Inr r, j, tr')"
      by simp
    from el have some: "list ! i \<noteq> None" and elv: "elem = RString (the (list ! i))"
      by (auto simp: ruby_libvirt_str_new2_wrap_def rb_raise_def split: option.splits)
    from st "1.prems"(2) have r': "result' = result @ [elem]"
      by (auto simp: ruby_libvirt_ary_store_wrap_def rb_ary_store_def split: option.splits)
    with "1.prems"(2) have len: "length result' = Suc i" by simp
    note ih = "1.IH"[OF lt el st rec len]
    from ih have l: "length r = max (Suc i) (length list)" and tk: "take (Suc i) r = result @ [elem]"
      and rest: "\<forall>k. Suc i \<le> k \<and> k < length list \<longrightarrow> list ! k \<noteq> None \<and> r ! k = RString (the (list ! k))"
      using r' by auto
    from l lt have l2: "length r = max i (length list)" by simp
    from tk have "take i (take (Suc i) r) = take i (result @ [elem])" by simp
    with "1.prems"(2) have tk2: "take i r = result" by (simp add: min_def)
    from tk have "(take (Suc i) r) ! i = (result @ [elem]) ! i" by simp
    moreover from "1.prems"(2) have "(result @ [elem]) ! i = elem"
      using nth_append_length[of result elem "[]"] by simp
    ultimately have ri: "r ! i = elem" by simp
    show ?thesis
    proof (intro conjI allI impI)
      show "length r = max i (length list)" by (rule l2)
      show "take i r = result" by (rule tk2)
    next
      fix k assume k: "i \<le> k \<and> k < length list"
      show "list ! k \<noteq> None" using k rest some by (cases "k = i") auto
      show "r ! k = RString (the (list ! k))" using k rest ri elv by (cases "k = i") auto
    qed
  qed
qed

text \<open>
  C1. Whatever raises and wherever, the \<^verbatim>\<open>xfree\<close> calls of \<^verbatim>\<open>ruby_libvirt_generate_list\<close>
  are exactly one per entry: the freed indices are \<open>0, \<dots>, n - 1\<close>, each once. The outer
  array is never freed. On a run that returns, the trace is \<open>n\<close> rounds of convert, store,
  free, and the result is the array of the converted entries. On a run that raises there
  is an index \<open>i\<close> such that the rounds before \<open>i\<close> completed, the round of \<open>i\<close> stopped
  before its \<^verbatim>\<open>xfree\<close> (or, when the array could not be created, nothing was begun and
  \<open>i = 0\<close>), and the cleanup pass frees exactly the entries \<open>i, \<dots>, n - 1\<close>.
\<close>

theorem generate_list_frees_each_entry_once:
  "xfrees (snd (ruby_libvirt_generate_list h list)) = [0..<length list] \<and>
   FreeList \<notin> set (snd (ruby_libvirt_generate_list h list)) \<and>
   (case fst (ruby_libvirt_generate_list h list) of
      Inr r \<Rightarrow>
        snd (ruby_libvirt_generate_list h list) =
          AryNew2 (length list) # concat (map entry_done [0..<length list]) \<and>
        r = RArray (map (\<lambda>s. RString (the s)) list)
    | Inl x \<Rightarrow>
        (\<exists>i att. i \<le> length list \<and>
           (att = [] \<or> att = [StrNew2 i] \<or> att = [StrNew2 i, AryStore i]) \<and>
           snd (ruby_libvirt_generate_list h list) =
             AryNew2 (length list) # concat (map entry_done [0..<i]) @ att @
               map XFree [i..<length list]))"
proof (cases "ruby_libvirt_ary_new2_wrap h (length list)")
  case (Inl x)
  then have g: "ruby_libvirt_generate_list h list =
      (Inl x, AryNew2 (length list) # map XFree [0..<length list])"
    by (simp add: ruby_libvirt_generate_list_def generate_list_exception_def Let_def)
  have x1: "xfrees (AryNew2 (length list) # map XFree [0..<length list]) = [0..<length list]"
    by (simp add: xfrees_simps xfrees_map_XFree)
  have x2: "FreeList \<notin> set (AryNew2 (length list) # map XFree [0..<length list])"
    by auto
  have x3: "\<exists>i att. i \<le> length list \<and>
           (att = [] \<or> att = [StrNew2 i] \<or> att = [StrNew2 i, AryStore i]) \<and>
           AryNew2 (length list) # map XFree [0..<length list] =
             AryNew2 (length list) # concat (map entry_done [0..<i]) @ att @
               map XFree [i..<length list]"
    by (rule exI[of _ 0], rule exI[of _ "[]"]) simp
  show ?thesis using x1 x2 x3 by (simp only: g fst_conv snd_conv sum.case) simp
next
  case (Inr result)
  then have r0: "result = []"
    by (auto simp: ruby_libvirt_ary_new2_wrap_def split: option.splits)
  obtain res j tr' where
    lp: "generate_list_loop h list 0 result [AryNew2 (length list)] = (res, j, tr')"
    by (cases "generate_list_loop h list 0 result [AryNew2 (length list)]") auto
  note t = generate_list_loop_trace[OF lp]
  show ?thesis
  proof (cases res)
    case (Inl x)
    with Inr lp have g: "ruby_libvirt_generate_list h list = (Inl x, tr' @ map XFree [j..<length list])"
      by (simp add: ruby_libvirt_generate_list_def generate_list_exception_def Let_def)
    from t Inl have jl: "j < length list" and
      tr: "tr' = [AryNew2 (length list)] @ concat (map entry_done [0..<j]) @ [StrNew2 j] \<or>
           tr' = [AryNew2 (length list)] @ concat (map entry_done [0..<j]) @ [StrNew2 j, AryStore j]"
      by auto
    from tr obtain att where att: "att = [StrNew2 j] \<or> att = [StrNew2 j, AryStore j]"
      and tr2: "tr' = [AryNew2 (length list)] @ concat (map entry_done [0..<j]) @ att"
      by auto
    have xa: "xfrees att = []"
      using att by (auto simp: xfrees_simps)
    have "xfrees (tr' @ map XFree [j..<length list]) =
            xfrees (concat (map entry_done [0..<j])) @ xfrees att @
            xfrees (map XFree [j..<length list])"
      by (simp add: tr2 xfrees_append xfrees_simps)
    also have "\<dots> = [0..<j] @ [j..<length list]"
      by (simp only: xfrees_done xfrees_map_XFree xa append_Nil)
    also have "\<dots> = [0..<length list]"
      using jl by (simp add: upt_split)
    finally have x1: "xfrees (tr' @ map XFree [j..<length list]) = [0..<length list]" .
    have x2: "FreeList \<notin> set (tr' @ map XFree [j..<length list])"
      using att FreeList_notin_entry_done[of "[0..<j]"] by (auto simp: tr2)
    have x3: "\<exists>i att. i \<le> length list \<and>
           (att = [] \<or> att = [StrNew2 i] \<or> att = [StrNew2 i, AryStore i]) \<and>
           tr' @ map XFree [j..<length list] =
             AryNew2 (length list) # concat (map entry_done [0..<i]) @ att @
               map XFree [i..<length list]"
      by (rule exI[of _ j], rule exI[of _ att]) (use att jl in \<open>auto simp: tr2\<close>)
    show ?thesis using x1 x2 x3 by (simp only: g fst_conv snd_conv sum.case) simp
  next
    case (Inr r)
    with \<open>ruby_libvirt_ary_new2_wrap h (length list) = Inr result\<close> lp
    have g: "ruby_libvirt_generate_list h list = (Inr (RArray r), tr')"
      by (simp add: ruby_libvirt_generate_list_def Let_def)
    from t Inr have jl: "j = length list" and
      tr: "tr' = [AryNew2 (length list)] @ concat (map entry_done [0..<length list])"
      by auto
    from generate_list_loop_value[OF lp[unfolded Inr]] r0
    have len: "length r = length list" and
      vals: "\<forall>k. k < length list \<longrightarrow> r ! k = RString (the (list ! k))"
      by auto
    have rv: "r = map (\<lambda>s. RString (the s)) list"
      by (rule nth_equalityI) (use len vals in auto)
    have x1: "xfrees tr' = [0..<length list]"
      by (simp add: tr xfrees_simps xfrees_done)
    have x2: "FreeList \<notin> set tr'"
      using FreeList_notin_entry_done[of "[0..<length list]"] by (simp add: tr)
    show ?thesis using x1 x2 rv tr by (simp only: g fst_conv snd_conv sum.case) simp
  qed
qed

text \<open>
  An instance: three entries, the runtime out of memory when it converts the second.
  The first entry was freed in its round, the cleanup pass frees the other two.
\<close>

theorem generate_list_frees_each_entry_once_witness:
  "ruby_libvirt_generate_list
     (quiet_host\<lparr>str_new2_fault := (\<lambda>i. if i = 1 then Some out_of_memory else None)\<rparr>)
     [Some ''default'', Some ''isolated'', Some ''nat''] =
   (Inl out_of_memory,
    [AryNew2 3, StrNew2 0, AryStore 0, XFree 0, StrNew2 1, XFree 1, XFree 2]) \<and>
   xfrees (snd (ruby_libvirt_generate_list
     (quiet_host\<lparr>str_new2_fault := (\<lambda>i. if i = 1 then Some out_of_memory else None)\<rparr>)
     [Some ''default'', Some ''isolated'', Some ''nat''])) = [0..<3]"
  using generate_list_frees_each_entry_once
    [of "quiet_host\<lparr>str_new2_fault := (\<lambda>i. if i = 1 then Some out_of_memory else None)\<rparr>"
        "[Some ''default'', Some ''isolated'', Some ''nat'']"]
  by (simp add: ruby_libvirt_generate_list_def generate_list_loop.simps quiet_host_def
      ruby_libvirt_ary_new2_wrap_def ruby_libvirt_str_new2_wrap_def ruby_libvirt_ary_store_wrap_def
      rb_ary_store_def generate_list_exception_def upt_rec)

text \<open>
  C2. The list \<open>[101, 102, 103]\<close> is returned by the native function, and appending the
  second wrapped element raises. Both wrappers made so far own their pointers, yet the
  cleanup loop runs from index 0 and hands all three pointers to the free function,
  \<open>101\<close> and \<open>102\<close> included; then it frees the outer array and re-raises.
\<close>

theorem gen_list_all_cleanup_frees_wrapped_elements:
  "gen_list_all
     (quiet_host\<lparr>ary_push_fault := (\<lambda>i. if i = 1 then Some out_of_memory else None)\<rparr>)
     no_errors [] ''virConnectListAllNetworks'' (\<lambda>flags. Some [101, 102, 103])
     (Inr (Some 1)) (\<lambda>p. Inr (RData p)) =
   (Inl out_of_memory,
    [AryNew2 3, NewFunc 101, AryPush 0, NewFunc 102, AryPush 1,
     FreeFunc 101, FreeFunc 102, FreeFunc 103, FreeList])"
  by (simp add: gen_list_all_def gen_list_all_loop.simps quiet_host_def
      ruby_libvirt_ary_new2_wrap_def ruby_libvirt_ary_push_wrap_def
      gen_list_all_exception_def integer_default_if_nil_def NIL_P_def)

text \<open>
  When it is \<^verbatim>\<open>newfunc\<close> that raises, outside \<^verbatim>\<open>rb_protect\<close>, the label is not reached:
  nothing is freed, the outer array included.
\<close>

lemma gen_list_all_newfunc_raises:
  "gen_list_all quiet_host no_errors [] ''virConnectListAllNetworks''
     (\<lambda>flags. Some [101, 102, 103]) (Inr (Some 1))
     (\<lambda>p. if p = 102 then Inl out_of_memory else Inr (RData p)) =
   (Inl out_of_memory, [AryNew2 3, NewFunc 101, AryPush 0, NewFunc 102])"
  by (simp add: gen_list_all_def gen_list_all_loop.simps quiet_host_def
      ruby_libvirt_ary_new2_wrap_def ruby_libvirt_ary_push_wrap_def
      gen_list_all_exception_def integer_default_if_nil_def NIL_P_def)

section \<open>Properties of the error translator\<close>

lemma rb_iv_get_set:
  "rb_iv_get (rb_iv_set obj name v) name' = (if name' = name then v else rb_iv_get obj name')"
  by (simp add: rb_iv_get_def rb_iv_set_def update_conv')

lemma rb_iv_set_fields: "klass (rb_iv_set obj name v) = klass obj" "mesg (rb_iv_set obj name v) = mesg obj"
  by (simp_all add: rb_iv_set_def)

lemma rb_iv_get_new: "rb_iv_get (rb_exc_new2 error msg) name = Qnil"
  by (simp add: rb_iv_get_def rb_exc_new2_def)

lemma rb_exc_new2_fields: "klass (rb_exc_new2 error msg) = error" "mesg (rb_exc_new2 error msg) = msg"
  by (simp_all add: rb_exc_new2_def)

text \<open>
  C8. When the runtime does not run out of memory while building the exception, the
  translator reads the connection's last error if a connection is given and the global
  one otherwise; the message is \<open>Call to f failed: m\<close> when that error has a message \<open>m\<close>
  and exactly \<open>Call to f failed\<close> when there is no error or no message; the exception
  has the class asked for and carries the function name, and the native code, domain
  (\<^verbatim>\<open>@libvirt_component\<close>), level and message as instance variables, each readable on
  its own and \<^verbatim>\<open>nil\<close> where the native layer recorded none.
\<close>

theorem create_error_translates:
  assumes "\<not> asprintf_fails h" and "exc_new2_fault h = None"
    and "err = (case conn of None \<Rightarrow> virGetLastError es | Some c \<Rightarrow> virConnGetLastError es c)"
  shows "\<exists>x. ruby_libvirt_create_error h es error method conn = Inr x \<and>
     klass x = error \<and>
     mesg x = (case Option.bind err message of
                 None \<Rightarrow> ''Call to '' @ method @ '' failed''
               | Some m \<Rightarrow> ''Call to '' @ method @ '' failed: '' @ m) \<and>
     rb_iv_get x ''@libvirt_function_name'' = RString method \<and>
     rb_iv_get x ''@libvirt_code'' = (case err of None \<Rightarrow> Qnil | Some e \<Rightarrow> RInteger (code e)) \<and>
     rb_iv_get x ''@libvirt_component'' =
       (case err of None \<Rightarrow> Qnil | Some e \<Rightarrow> RInteger (domain e)) \<and>
     rb_iv_get x ''@libvirt_level'' = (case err of None \<Rightarrow> Qnil | Some e \<Rightarrow> RInteger (level e)) \<and>
     rb_iv_get x ''@libvirt_message'' =
       (case Option.bind err message of None \<Rightarrow> Qnil | Some m \<Rightarrow> RString m)"
proof -
  from assms(3)
  have e: "(case conn of None \<Rightarrow> virGetLastError es | Some c \<Rightarrow> virConnGetLastError es c) = err"
    by simp
  show ?thesis
  proof (cases err)
    case None
    with assms(1,2) show ?thesis
      unfolding ruby_libvirt_create_error_def e
      by (simp add: Let_def rb_iv_get_set rb_iv_set_fields rb_iv_get_new rb_exc_new2_fields)
  next
    case (Some v)
    with assms(1,2) show ?thesis
      unfolding ruby_libvirt_create_error_def e
      by (cases "message v")
        (simp_all add: Let_def rb_iv_get_set rb_iv_set_fields rb_iv_get_new rb_exc_new2_fields)
  qed
qed

text \<open>
  An instance: connection 7 has a last error without a message; the global error, which
  has one, is not read.
\<close>

theorem create_error_translates_witness:
  "\<not> asprintf_fails quiet_host \<and> exc_new2_fault quiet_host = None \<and>
   virConnGetLastError sample_errors 7 =
     Some \<lparr>code = 38, domain = 19, level = 2, message = None\<rparr> \<and>
   (\<exists>x. ruby_libvirt_create_error quiet_host sample_errors e_Error ''virNetworkCreate'' (Some 7) = Inr x \<and>
     klass x = e_Error \<and>
     mesg x = ''Call to virNetworkCreate failed'' \<and>
     rb_iv_get x ''@libvirt_function_name'' = RString ''virNetworkCreate'' \<and>
     rb_iv_get x ''@libvirt_code'' = RInteger 38 \<and>
     rb_iv_get x ''@libvirt_component'' = RInteger 19 \<and>
     rb_iv_get x ''@libvirt_level'' = RInteger 2 \<and>
     rb_iv_get x ''@libvirt_message'' = Qnil)"
  using create_error_translates
    [of quiet_host "Some \<lparr>code = 38, domain = 19, level = 2, message = None\<rparr>"
        sample_errors "Some 7" e_Error "''virNetworkCreate''"]
  by (simp add: quiet_host_def sample_errors_def)

text \<open>Without a connection the global error is read, and its message is embedded.\<close>

lemma create_error_global_with_message:
  "ruby_libvirt_create_error quiet_host sample_errors e_RetrieveError ''virNodeGetInfo'' None =
     Inr \<lparr>klass = e_RetrieveError, mesg = ''Call to virNodeGetInfo failed: internal error'',
          ivars = [(''@libvirt_function_name'', RString ''virNodeGetInfo''),
                   (''@libvirt_code'', RInteger 1), (''@libvirt_component'', RInteger 0),
                   (''@libvirt_level'', RInteger 2),
                   (''@libvirt_message'', RString ''internal error'')]\<rparr>"
  by (simp add: ruby_libvirt_create_error_def quiet_host_def sample_errors_def rb_iv_set_def
      rb_exc_new2_def)

section \<open>Properties of the typed-parameter codec\<close>

subsection \<open>The overlay loop\<close>

lemma rb_hash_aref_Inr:
  "rb_hash_aref input key = Inr val \<longleftrightarrow>
     map_of (entries input) key = Some val \<or>
     map_of (entries input) key = None \<and> ifnone input key = Inr val"
  by (auto simp: rb_hash_aref_def split: option.splits)

lemma rb_hash_aref_plain:
  "rb_hash_aref (plain_hash es) key = (case map_of es key of Some v \<Rightarrow> Inr v | None \<Rightarrow> Inr Qnil)"
  by (simp add: rb_hash_aref_def plain_hash_def split: option.splits)


lemma loop_overlaid:
  "set_typed_parameters_loop h input ps = Inr ps' \<Longrightarrow> list_all2 (overlaid h input) ps ps'"
proof (induction ps arbitrary: ps')
  case Nil
  then show ?case by simp
next
  case (Cons p ps)
  from Cons.prems obtain val where l: "rb_hash_aref input (RString (field p)) = Inr val"
    by (cases "rb_hash_aref input (RString (field p))") auto
  show ?case
  proof (cases "val = Qnil")
    case True
    with Cons.prems l obtain qs where q: "set_typed_parameters_loop h input ps = Inr qs" "ps' = p # qs"
      by (auto simp: NIL_P_def split: sum.splits)
    with Cons.IH[OF q(1)] True l show ?thesis by (simp add: overlaid_def)
  next
    case False
    with Cons.prems l obtain tv qs where
      q: "set_typed_parameters_val h (tvalue p) val = Inr tv"
         "set_typed_parameters_loop h input ps = Inr qs" "ps' = p\<lparr>tvalue := tv\<rparr> # qs"
      by (auto simp: NIL_P_def split: sum.splits)
    with Cons.IH[OF q(2)] False l show ?thesis by (simp add: overlaid_def)
  qed
qed






text \<open>For a hash without a default, a missing field name leaves its slot unchanged.\<close>

lemma overlay_plain_hash_absent_untouched:
  "set_typed_parameters_loop h (plain_hash es) params = Inr params' \<Longrightarrow> i < length params \<Longrightarrow>
     map_of es (RString (field (params ! i))) = None \<Longrightarrow> params' ! i = params ! i"
proof -
  assume ok: "set_typed_parameters_loop h (plain_hash es) params = Inr params'"
    and i: "i < length params" and ab: "map_of es (RString (field (params ! i))) = None"
  from loop_overlaid[OF ok] i have "overlaid h (plain_hash es) (params ! i) (params' ! i)"
    by (simp add: list_all2_nthD)
  with ab show ?thesis by (simp add: overlaid_def rb_hash_aref_plain)
qed


subsection \<open>Type checks of the overlay\<close>

text \<open>
  C4. A boolean slot is overlaid with the Integer 42: no exception is raised, the slot
  is set to 0 and the commit callback is called with it.
\<close>

theorem set_typed_parameters_boolean_unchecked:
  "ruby_libvirt_set_typed_parameters quiet_host no_errors (Inr (Some 1))
     (Hash (plain_hash [(RString ''enabled'', RInteger 42)])) 0
     (\<lambda>flags. (None, 1))
     (\<lambda>flags nparams. (None, [\<lparr>field = ''enabled'', tvalue = V_BOOLEAN 1\<rparr>]))
     (\<lambda>flags params. None) =
   (Inr Qnil,
    [Nparams_cb 0, Get_cb 0 1, Set_cb 0 [\<lparr>field = ''enabled'', tvalue = V_BOOLEAN 0\<rparr>]])"
  by (simp add: ruby_libvirt_set_typed_parameters_def RHASH_SIZE_def rb_hash_aref_def NIL_P_def
      plain_hash_def)

text \<open>
  The other tags check the value: a String for an \<^verbatim>\<open>unsigned int\<close> slot raises a
  \<^verbatim>\<open>TypeError\<close> before the commit callback is reached.
\<close>

lemma set_typed_parameters_int_checked:
  "ruby_libvirt_set_typed_parameters quiet_host no_errors (Inr (Some 1))
     (Hash (plain_hash [(RString ''weight'', RString ''heavy'')])) 0
     (\<lambda>flags. (None, 1))
     (\<lambda>flags nparams. (None, [\<lparr>field = ''weight'', tvalue = V_UINT 500\<rparr>]))
     (\<lambda>flags params. None) =
   (rb_raise rb_eTypeError ''no implicit conversion into Integer'', [Nparams_cb 0, Get_cb 0 1])"
  by (simp add: ruby_libvirt_set_typed_parameters_def RHASH_SIZE_def rb_hash_aref_def NIL_P_def
      NUM2UINT_def rb_num2integer_def check_range_def rb_raise_def plain_hash_def)

subsection \<open>Decode, encode, decode\<close>

























subsection \<open>The two-call protocol\<close>

text \<open>
  C10. With a hash that has no entries, whatever its default,
  \<^verbatim>\<open>ruby_libvirt_set_typed_parameters\<close> returns \<^verbatim>\<open>nil\<close> and calls none of the three
  callbacks, whatever they are.
\<close>

theorem set_typed_parameters_empty_input:
  "ruby_libvirt_set_typed_parameters h es conn (Hash (hash\<lparr>entries := []\<rparr>)) flags
     nparams_cb get_cb set_cb =
   (Inr Qnil, [])"
  by (simp add: ruby_libvirt_set_typed_parameters_def RHASH_SIZE_def)

text \<open>
  C9, as the code has it. The read path returns the empty hash after a count of 0 and
  calls nothing else. The write path has no such test: with a hash that has entries and
  a count of 0 it calls the fetch callback with 0 in every case. When the fetch reports
  an error, that error is raised and the commit callback is not called; when the overlay
  of the hash on the buffer the fetch left raises, that is raised and the commit callback
  is not called; otherwise the commit callback is called with the overlaid buffer (the
  empty one when the fetch left none), and the function returns \<^verbatim>\<open>nil\<close> or raises as
  the commit callback decides.
\<close>

theorem typed_parameters_zero_count:
  "(nparams_cb flags = (None, 0) \<longrightarrow>
      ruby_libvirt_get_typed_parameters h es conn flags nparams_cb get_cb =
        (Inr rb_hash_new, [Nparams_cb flags])) \<and>
   (entries hash \<noteq> [] \<and> nparams_cb flags = (None, 0) \<longrightarrow>
      (\<exists>rest. snd (ruby_libvirt_set_typed_parameters h es conn (Hash hash) flags
                      nparams_cb get_cb set_cb) =
               Nparams_cb flags # Get_cb flags 0 # rest) \<and>
      (\<forall>errname params. get_cb flags 0 = (Some errname, params) \<longrightarrow>
         ruby_libvirt_set_typed_parameters h es conn (Hash hash) flags nparams_cb get_cb set_cb =
           (raise_error h es e_RetrieveError errname conn, [Nparams_cb flags, Get_cb flags 0])) \<and>
      (\<forall>params x. get_cb flags 0 = (None, params) \<and>
           set_typed_parameters_loop h hash params = Inl x \<longrightarrow>
         ruby_libvirt_set_typed_parameters h es conn (Hash hash) flags nparams_cb get_cb set_cb =
           (Inl x, [Nparams_cb flags, Get_cb flags 0])) \<and>
      (\<forall>params params'. get_cb flags 0 = (None, params) \<and>
           set_typed_parameters_loop h hash params = Inr params' \<longrightarrow>
         ruby_libvirt_set_typed_parameters h es conn (Hash hash) flags nparams_cb get_cb set_cb =
           ((case set_cb flags params' of
               None \<Rightarrow> Inr Qnil
             | Some errname \<Rightarrow> raise_error h es e_RetrieveError errname conn),
            [Nparams_cb flags, Get_cb flags 0, Set_cb flags params'])) \<and>
      (get_cb flags 0 = (None, []) \<longrightarrow>
         ruby_libvirt_set_typed_parameters h es conn (Hash hash) flags nparams_cb get_cb set_cb =
           ((case set_cb flags [] of
               None \<Rightarrow> Inr Qnil
             | Some errname \<Rightarrow> raise_error h es e_RetrieveError errname conn),
            [Nparams_cb flags, Get_cb flags 0, Set_cb flags []])))"
proof (intro conjI impI allI)
  assume "nparams_cb flags = (None, 0)"
  then show "ruby_libvirt_get_typed_parameters h es conn flags nparams_cb get_cb =
        (Inr rb_hash_new, [Nparams_cb flags])"
    by (simp add: ruby_libvirt_get_typed_parameters_def)
next
  assume a: "entries hash \<noteq> [] \<and> nparams_cb flags = (None, 0)"
  obtain e ps where g: "get_cb flags 0 = (e, ps)" by (cases "get_cb flags 0") auto
  show "\<exists>rest. snd (ruby_libvirt_set_typed_parameters h es conn (Hash hash) flags
                      nparams_cb get_cb set_cb) =
               Nparams_cb flags # Get_cb flags 0 # rest"
    using a g
    by (cases e; cases "set_typed_parameters_loop h hash ps")
      (auto simp: ruby_libvirt_set_typed_parameters_def RHASH_SIZE_def split: option.splits)
next
  fix errname params
  assume "entries hash \<noteq> [] \<and> nparams_cb flags = (None, 0)"
    and "get_cb flags 0 = (Some errname, params)"
  then show "ruby_libvirt_set_typed_parameters h es conn (Hash hash) flags nparams_cb get_cb set_cb =
           (raise_error h es e_RetrieveError errname conn, [Nparams_cb flags, Get_cb flags 0])"
    by (simp add: ruby_libvirt_set_typed_parameters_def RHASH_SIZE_def)
next
  fix params x
  assume "entries hash \<noteq> [] \<and> nparams_cb flags = (None, 0)"
    and "get_cb flags 0 = (None, params) \<and> set_typed_parameters_loop h hash params = Inl x"
  then show "ruby_libvirt_set_typed_parameters h es conn (Hash hash) flags nparams_cb get_cb set_cb =
           (Inl x, [Nparams_cb flags, Get_cb flags 0])"
    by (simp add: ruby_libvirt_set_typed_parameters_def RHASH_SIZE_def)
next
  fix params params'
  assume "entries hash \<noteq> [] \<and> nparams_cb flags = (None, 0)"
    and "get_cb flags 0 = (None, params) \<and> set_typed_parameters_loop h hash params = Inr params'"
  then show "ruby_libvirt_set_typed_parameters h es conn (Hash hash) flags nparams_cb get_cb set_cb =
           ((case set_cb flags params' of
               None \<Rightarrow> Inr Qnil
             | Some errname \<Rightarrow> raise_error h es e_RetrieveError errname conn),
            [Nparams_cb flags, Get_cb flags 0, Set_cb flags params'])"
    by (simp add: ruby_libvirt_set_typed_parameters_def RHASH_SIZE_def split: option.splits)
next
  assume "entries hash \<noteq> [] \<and> nparams_cb flags = (None, 0)" and "get_cb flags 0 = (None, [])"
  then show "ruby_libvirt_set_typed_parameters h es conn (Hash hash) flags nparams_cb get_cb set_cb =
           ((case set_cb flags [] of
               None \<Rightarrow> Inr Qnil
             | Some errname \<Rightarrow> raise_error h es e_RetrieveError errname conn),
            [Nparams_cb flags, Get_cb flags 0, Set_cb flags []])"
    by (simp add: ruby_libvirt_set_typed_parameters_def RHASH_SIZE_def split: option.splits)
qed

text \<open>
  Instances of each case: the fetch leaves no slot, the fetch fails, the fetch leaves a
  slot that is overlaid, and the overlay raises.
\<close>

theorem typed_parameters_zero_count_witness:
  "ruby_libvirt_get_typed_parameters quiet_host no_errors (Inr (Some 1)) 0
       (\<lambda>flags. (None, 0)) (\<lambda>flags nparams. (None, [])) =
     (Inr rb_hash_new, [Nparams_cb 0]) \<and>
   entries (plain_hash [(RString ''weight'', RInteger 5)] :: int rhash) \<noteq> [] \<and>
   ruby_libvirt_set_typed_parameters quiet_host no_errors (Inr (Some 1))
       (Hash (plain_hash [(RString ''weight'', RInteger 5)])) 0
       (\<lambda>flags. (None, 0)) (\<lambda>flags nparams. (None, [])) (\<lambda>flags params. None) =
     (Inr Qnil, [Nparams_cb 0, Get_cb 0 0, Set_cb 0 []]) \<and>
   ruby_libvirt_set_typed_parameters quiet_host no_errors (Inr (Some 1))
       (Hash (plain_hash [(RString ''weight'', RInteger 5)])) 0
       (\<lambda>flags. (None, 0)) (\<lambda>flags nparams. (Some ''virDomainGetSchedulerParameters'', []))
       (\<lambda>flags params. None) =
     (raise_error quiet_host no_errors e_RetrieveError ''virDomainGetSchedulerParameters''
        (Inr (Some 1)),
      [Nparams_cb 0, Get_cb 0 0]) \<and>
   set_typed_parameters_loop quiet_host (plain_hash [(RString ''weight'', RInteger 5)])
       [\<lparr>field = ''weight'', tvalue = V_UINT 500\<rparr>] =
     Inr [\<lparr>field = ''weight'', tvalue = V_UINT 5\<rparr>] \<and>
   ruby_libvirt_set_typed_parameters quiet_host no_errors (Inr (Some 1))
       (Hash (plain_hash [(RString ''weight'', RInteger 5)])) 0
       (\<lambda>flags. (None, 0))
       (\<lambda>flags nparams. (None, [\<lparr>field = ''weight'', tvalue = V_UINT 500\<rparr>]))
       (\<lambda>flags params. None) =
     (Inr Qnil,
      [Nparams_cb 0, Get_cb 0 0, Set_cb 0 [\<lparr>field = ''weight'', tvalue = V_UINT 5\<rparr>]]) \<and>
   set_typed_parameters_loop quiet_host (plain_hash [(RString ''weight'', RString ''heavy'')])
       [\<lparr>field = ''weight'', tvalue = V_UINT 500\<rparr>] =
     rb_raise rb_eTypeError ''no implicit conversion into Integer'' \<and>
   ruby_libvirt_set_typed_parameters quiet_host no_errors (Inr (Some 1))
       (Hash (plain_hash [(RString ''weight'', RString ''heavy'')])) 0
       (\<lambda>flags. (None, 0))
       (\<lambda>flags nparams. (None, [\<lparr>field = ''weight'', tvalue = V_UINT 500\<rparr>]))
       (\<lambda>flags params. None) =
     (rb_raise rb_eTypeError ''no implicit conversion into Integer'',
      [Nparams_cb 0, Get_cb 0 0])"
proof -
  have ne: "entries (plain_hash [(RString ''weight'', RInteger 5)] :: int rhash) \<noteq> []"
    by (simp add: plain_hash_def)
  have ne2: "entries (plain_hash [(RString ''weight'', RString ''heavy'')] :: int rhash) \<noteq> []"
    by (simp add: plain_hash_def)
  have l1: "set_typed_parameters_loop quiet_host (plain_hash [(RString ''weight'', RInteger 5)])
       [\<lparr>field = ''weight'', tvalue = V_UINT 500\<rparr>] =
     Inr [\<lparr>field = ''weight'', tvalue = V_UINT 5\<rparr>]"
    by (simp add: plain_hash_def rb_hash_aref_def NIL_P_def NUM2UINT_def rb_num2integer_def
        check_range_def)
  have l2: "set_typed_parameters_loop quiet_host
       (plain_hash [(RString ''weight'', RString ''heavy'')])
       [\<lparr>field = ''weight'', tvalue = V_UINT 500\<rparr>] =
     rb_raise rb_eTypeError ''no implicit conversion into Integer''"
    by (simp add: plain_hash_def rb_hash_aref_def NIL_P_def NUM2UINT_def rb_num2integer_def
        check_range_def rb_raise_def)
  note a = typed_parameters_zero_count
    [where nparams_cb = "\<lambda>flags. (None, 0)" and flags = 0 and h = quiet_host and es = no_errors
       and conn = "Inr (Some 1)" and get_cb = "\<lambda>flags nparams. (None, [])"
       and hash = "plain_hash [(RString ''weight'', RInteger 5)]"
       and set_cb = "\<lambda>flags params. None"]
  note b = typed_parameters_zero_count
    [where nparams_cb = "\<lambda>flags. (None, 0)" and flags = 0 and h = quiet_host and es = no_errors
       and conn = "Inr (Some 1)"
       and get_cb = "\<lambda>flags nparams. (Some ''virDomainGetSchedulerParameters'', [])"
       and hash = "plain_hash [(RString ''weight'', RInteger 5)]"
       and set_cb = "\<lambda>flags params. None"]
  note c = typed_parameters_zero_count
    [where nparams_cb = "\<lambda>flags. (None, 0)" and flags = 0 and h = quiet_host and es = no_errors
       and conn = "Inr (Some 1)"
       and get_cb = "\<lambda>flags nparams. (None, [\<lparr>field = ''weight'', tvalue = V_UINT 500\<rparr>])"
       and hash = "plain_hash [(RString ''weight'', RInteger 5)]"
       and set_cb = "\<lambda>flags params. None"]
  note d = typed_parameters_zero_count
    [where nparams_cb = "\<lambda>flags. (None, 0)" and flags = 0 and h = quiet_host and es = no_errors
       and conn = "Inr (Some 1)"
       and get_cb = "\<lambda>flags nparams. (None, [\<lparr>field = ''weight'', tvalue = V_UINT 500\<rparr>])"
       and hash = "plain_hash [(RString ''weight'', RString ''heavy'')]"
       and set_cb = "\<lambda>flags params. None"]
  from a have r1: "ruby_libvirt_get_typed_parameters quiet_host no_errors (Inr (Some 1)) 0
       (\<lambda>flags. (None, 0)) (\<lambda>flags nparams. (None, [])) =
     (Inr rb_hash_new, [Nparams_cb 0])"
    by simp
  from ne a have r2: "ruby_libvirt_set_typed_parameters quiet_host no_errors (Inr (Some 1))
       (Hash (plain_hash [(RString ''weight'', RInteger 5)])) 0
       (\<lambda>flags. (None, 0)) (\<lambda>flags nparams. (None, [])) (\<lambda>flags params. None) =
     (Inr Qnil, [Nparams_cb 0, Get_cb 0 0, Set_cb 0 []])"
    by simp
  from ne b have r3: "ruby_libvirt_set_typed_parameters quiet_host no_errors (Inr (Some 1))
       (Hash (plain_hash [(RString ''weight'', RInteger 5)])) 0
       (\<lambda>flags. (None, 0)) (\<lambda>flags nparams. (Some ''virDomainGetSchedulerParameters'', []))
       (\<lambda>flags params. None) =
     (raise_error quiet_host no_errors e_RetrieveError ''virDomainGetSchedulerParameters''
        (Inr (Some 1)),
      [Nparams_cb 0, Get_cb 0 0])"
    by simp
  from ne l1 c have r4: "ruby_libvirt_set_typed_parameters quiet_host no_errors (Inr (Some 1))
       (Hash (plain_hash [(RString ''weight'', RInteger 5)])) 0
       (\<lambda>flags. (None, 0))
       (\<lambda>flags nparams. (None, [\<lparr>field = ''weight'', tvalue = V_UINT 500\<rparr>]))
       (\<lambda>flags params. None) =
     (Inr Qnil,
      [Nparams_cb 0, Get_cb 0 0, Set_cb 0 [\<lparr>field = ''weight'', tvalue = V_UINT 5\<rparr>]])"
    by simp
  from ne2 l2 d have r5: "ruby_libvirt_set_typed_parameters quiet_host no_errors (Inr (Some 1))
       (Hash (plain_hash [(RString ''weight'', RString ''heavy'')])) 0
       (\<lambda>flags. (None, 0))
       (\<lambda>flags nparams. (None, [\<lparr>field = ''weight'', tvalue = V_UINT 500\<rparr>]))
       (\<lambda>flags params. None) =
     (rb_raise rb_eTypeError ''no implicit conversion into Integer'',
      [Nparams_cb 0, Get_cb 0 0])"
    by (simp add: rb_raise_def)
  from r1 ne r2 r3 l1 r4 l2 r5 show ?thesis by (intro conjI)
qed

text \<open>
  C9 as stated fails on the write path: after a count of 0 the fetch and the commit
  callback are both called.
\<close>

theorem set_typed_parameters_zero_count_counterexample:
  "ruby_libvirt_set_typed_parameters quiet_host no_errors (Inr (Some 1))
     (Hash (plain_hash [(RString ''weight'', RInteger 5)])) 0
     (\<lambda>flags. (None, 0)) (\<lambda>flags nparams. (None, [])) (\<lambda>flags params. None) =
   (Inr Qnil, [Nparams_cb 0, Get_cb 0 0, Set_cb 0 []])"
  by (simp add: ruby_libvirt_set_typed_parameters_def RHASH_SIZE_def plain_hash_def)

section \<open>Properties of the native handle\<close>

lemma raise_error_Inl: "raise_error h es error method conn \<noteq> Inr v"
  by (simp add: raise_error_def split: sum.splits)

lemma gen_call_free_success_nulls:
  "gen_call_free h es kind conn free_func s = (Inr v, s', tr) \<Longrightarrow> ptr s' = None"
  by (auto simp: gen_call_free_def Let_def raise_error_Inl split: option.splits if_splits)

lemma network_get_freed:
  "ptr n = None \<Longrightarrow> network_get n = rb_raise rb_eArgError ''Network has been freed''"
  by (simp add: network_get_def generic_get_def)

lemma bind_result_simps:
  "bind_result (Inl x) f = Inl x" "bind_result (Inr a) f = f a"
  by (simp_all add: bind_result_def)

lemma bind_result_raise: "bind_result (rb_raise c m) f = rb_raise c m"
  by (simp add: bind_result_def rb_raise_def)

lemma gen_call_raise:
  "gen_call_void h es name conn (rb_raise c m) func = (rb_raise c m, [])"
  "gen_call_truefalse h es name conn (rb_raise c m) func = (rb_raise c m, [])"
  "gen_call_string h es name conn dealloc (rb_raise c m) sfunc = (rb_raise c m, [])"
  by (simp_all add: gen_call_void_def gen_call_truefalse_def gen_call_string_def rb_raise_def)

lemma gen_call_Inl:
  "gen_call_void h es name conn (Inl x) func = (Inl x, [])"
  "gen_call_truefalse h es name conn (Inl x) func = (Inl x, [])"
  "gen_call_string h es name conn dealloc (Inl x) sfunc = (Inl x, [])"
  by (simp_all add: gen_call_void_def gen_call_truefalse_def gen_call_string_def)

text \<open>
  C5. After a free that returned, the handle's pointer is null; \<^verbatim>\<open>network_get\<close> then
  raises \<open>Network has been freed\<close>, and so does every method of \<^verbatim>\<open>network.c\<close> that is
  built on it, without calling the native library. For the three methods that convert
  or check other arguments this is stated for arguments that pass; whatever the
  arguments, these methods raise and call no native function.
\<close>

theorem freed_handle_operations_raise:
  assumes "libvirt_netw_free h es lv conn n0 = (Inr Qnil, n, tr)"
  shows "network_get n = rb_raise rb_eArgError ''Network has been freed'' \<and>
    libvirt_netw_undefine h es lv conn n = (rb_raise rb_eArgError ''Network has been freed'', []) \<and>
    libvirt_netw_create h es lv conn n = (rb_raise rb_eArgError ''Network has been freed'', []) \<and>
    libvirt_netw_destroy h es lv conn n = (rb_raise rb_eArgError ''Network has been freed'', []) \<and>
    libvirt_netw_name h es lv conn n = (rb_raise rb_eArgError ''Network has been freed'', []) \<and>
    libvirt_netw_uuid h es lv conn n = (rb_raise rb_eArgError ''Network has been freed'', []) \<and>
    libvirt_netw_bridge_name h es lv conn n =
      (rb_raise rb_eArgError ''Network has been freed'', []) \<and>
    libvirt_netw_autostart h es lv conn n =
      (rb_raise rb_eArgError ''Network has been freed'', []) \<and>
    libvirt_netw_active_p h es lv conn n =
      (rb_raise rb_eArgError ''Network has been freed'', []) \<and>
    libvirt_netw_persistent_p h es lv conn n =
      (rb_raise rb_eArgError ''Network has been freed'', []) \<and>
    (length argv \<le> 1 \<and>
     NUM2UINT h (integer_default_if_nil (case argv of [] \<Rightarrow> Qnil | f # _ \<Rightarrow> f) 0) = Inr fl \<longrightarrow>
       libvirt_netw_xml_desc h es lv conn argv n =
         (rb_raise rb_eArgError ''Network has been freed'', [])) \<and>
    (autostart = Qtrue \<or> autostart = Qfalse \<longrightarrow>
       libvirt_netw_autostart_set h es lv conn n autostart =
         (rb_raise rb_eArgError ''Network has been freed'', [])) \<and>
    (NUM2UINT h command = Inr c \<and> NUM2UINT h section_arg = Inr s \<and> NUM2INT h index = Inr i \<and>
     StringValuePtr xml = Inr x \<and> NUM2UINT h flags = Inr f \<longrightarrow>
       libvirt_netw_update h es lv conn n command section_arg index xml flags =
         (rb_raise rb_eArgError ''Network has been freed'', [])) \<and>
    isl (fst (libvirt_netw_xml_desc h es lv conn argv n)) \<and>
    snd (libvirt_netw_xml_desc h es lv conn argv n) = [] \<and>
    isl (fst (libvirt_netw_autostart_set h es lv conn n autostart)) \<and>
    snd (libvirt_netw_autostart_set h es lv conn n autostart) = [] \<and>
    isl (fst (libvirt_netw_update h es lv conn n command section_arg index xml flags)) \<and>
    snd (libvirt_netw_update h es lv conn n command section_arg index xml flags) = []"
proof -
  from assms have p: "ptr n = None"
    unfolding libvirt_netw_free_def by (rule gen_call_free_success_nulls)
  note g = network_get_freed[OF p]
  have a1: "network_get n = rb_raise rb_eArgError ''Network has been freed''"
    by (rule g)
  have a2: "libvirt_netw_undefine h es lv conn n = (rb_raise rb_eArgError ''Network has been freed'', [])"
    by (simp add: libvirt_netw_undefine_def g bind_result_raise gen_call_raise)
  have a3: "libvirt_netw_create h es lv conn n = (rb_raise rb_eArgError ''Network has been freed'', [])"
    by (simp add: libvirt_netw_create_def g bind_result_raise gen_call_raise)
  have a4: "libvirt_netw_destroy h es lv conn n = (rb_raise rb_eArgError ''Network has been freed'', [])"
    by (simp add: libvirt_netw_destroy_def g bind_result_raise gen_call_raise)
  have a5: "libvirt_netw_name h es lv conn n = (rb_raise rb_eArgError ''Network has been freed'', [])"
    by (simp add: libvirt_netw_name_def g bind_result_raise gen_call_raise)
  have a6: "libvirt_netw_uuid h es lv conn n = (rb_raise rb_eArgError ''Network has been freed'', [])"
    by (simp add: libvirt_netw_uuid_def g rb_raise_def)
  have a7: "libvirt_netw_bridge_name h es lv conn n =
      (rb_raise rb_eArgError ''Network has been freed'', [])"
    by (simp add: libvirt_netw_bridge_name_def g bind_result_raise gen_call_raise)
  have a8: "libvirt_netw_autostart h es lv conn n =
      (rb_raise rb_eArgError ''Network has been freed'', [])"
    by (simp add: libvirt_netw_autostart_def g rb_raise_def)
  have a9: "libvirt_netw_active_p h es lv conn n =
      (rb_raise rb_eArgError ''Network has been freed'', [])"
    by (simp add: libvirt_netw_active_p_def g bind_result_raise gen_call_raise)
  have a10: "libvirt_netw_persistent_p h es lv conn n =
      (rb_raise rb_eArgError ''Network has been freed'', [])"
    by (simp add: libvirt_netw_persistent_p_def g bind_result_raise gen_call_raise)
  have a11: "length argv \<le> 1 \<and>
     NUM2UINT h (integer_default_if_nil (case argv of [] \<Rightarrow> Qnil | f # _ \<Rightarrow> f) 0) = Inr fl \<longrightarrow>
       libvirt_netw_xml_desc h es lv conn argv n =
         (rb_raise rb_eArgError ''Network has been freed'', [])"
    by (simp add: libvirt_netw_xml_desc_def g bind_result_raise gen_call_raise bind_result_simps
        Let_def)
  have a12: "autostart = Qtrue \<or> autostart = Qfalse \<longrightarrow>
       libvirt_netw_autostart_set h es lv conn n autostart =
         (rb_raise rb_eArgError ''Network has been freed'', [])"
    by (auto simp: libvirt_netw_autostart_set_def g bind_result_raise gen_call_raise)
  have a13: "NUM2UINT h command = Inr c \<and> NUM2UINT h section_arg = Inr s \<and> NUM2INT h index = Inr i \<and>
     StringValuePtr xml = Inr x \<and> NUM2UINT h flags = Inr f \<longrightarrow>
       libvirt_netw_update h es lv conn n command section_arg index xml flags =
         (rb_raise rb_eArgError ''Network has been freed'', [])"
    by (simp add: libvirt_netw_update_def g bind_result_raise gen_call_raise bind_result_simps)
  have xd: "\<exists>e. libvirt_netw_xml_desc h es lv conn argv n = (Inl e, [])"
  proof (cases "1 < length argv")
    case True
    then show ?thesis by (simp add: libvirt_netw_xml_desc_def rb_raise_def)
  next
    case False
    then show ?thesis
      by (cases "NUM2UINT h (integer_default_if_nil (case argv of [] \<Rightarrow> Qnil | f # _ \<Rightarrow> f) 0)")
        (simp_all add: libvirt_netw_xml_desc_def Let_def bind_result_simps g bind_result_raise
          gen_call_raise gen_call_Inl, simp add: rb_raise_def)
  qed
  have as: "\<exists>e. libvirt_netw_autostart_set h es lv conn n autostart = (Inl e, [])"
    by (simp add: libvirt_netw_autostart_set_def g bind_result_raise gen_call_raise)
      (simp add: rb_raise_def)
  have up: "\<exists>e. libvirt_netw_update h es lv conn n command section_arg index xml flags = (Inl e, [])"
    by (cases "NUM2UINT h command"; cases "NUM2UINT h section_arg"; cases "NUM2INT h index";
        cases "StringValuePtr xml"; cases "NUM2UINT h flags")
      (simp_all add: libvirt_netw_update_def bind_result_simps g bind_result_raise
        gen_call_raise gen_call_Inl, simp add: rb_raise_def)
  from xd have b1: "isl (fst (libvirt_netw_xml_desc h es lv conn argv n))"
    and b2: "snd (libvirt_netw_xml_desc h es lv conn argv n) = []" by auto
  from as have b3: "isl (fst (libvirt_netw_autostart_set h es lv conn n autostart))"
    and b4: "snd (libvirt_netw_autostart_set h es lv conn n autostart) = []" by auto
  from up have b5: "isl (fst (libvirt_netw_update h es lv conn n command section_arg index xml flags))"
    and b6: "snd (libvirt_netw_update h es lv conn n command section_arg index xml flags) = []"
    by auto
  show ?thesis
    using a1 a2 a3 a4 a5 a6 a7 a8 a9 a10 a11 a12 a13 b1 b2 b3 b4 b5 b6 by (intro conjI)
qed


text \<open>An instance: a live handle is freed, then used.\<close>

theorem freed_handle_operations_raise_witness:
  "libvirt_netw_free quiet_host no_errors sample_libvirt (Inr (Some 1))
       \<lparr>ptr = Some 4096, connection = RData 1\<rparr> =
     (Inr Qnil, \<lparr>ptr = None, connection = RData 1\<rparr>, [NativeCall ''virNetworkFree'' 4096]) \<and>
   libvirt_netw_name quiet_host no_errors sample_libvirt (Inr (Some 1))
       \<lparr>ptr = None, connection = RData 1\<rparr> =
     (rb_raise rb_eArgError ''Network has been freed'', []) \<and>
   NUM2UINT quiet_host (integer_default_if_nil (case [RInteger 2] of [] \<Rightarrow> Qnil | f # x \<Rightarrow> f) 0) = Inr 2 \<and>
   libvirt_netw_xml_desc quiet_host no_errors sample_libvirt (Inr (Some 1)) [RInteger 2]
       \<lparr>ptr = None, connection = RData 1\<rparr> =
     (rb_raise rb_eArgError ''Network has been freed'', []) \<and>
   libvirt_netw_autostart_set quiet_host no_errors sample_libvirt (Inr (Some 1))
       \<lparr>ptr = None, connection = RData 1\<rparr> Qtrue =
     (rb_raise rb_eArgError ''Network has been freed'', []) \<and>
   NUM2UINT quiet_host (RInteger 1) = Inr 1 \<and> NUM2UINT quiet_host (RInteger 4) = Inr 4 \<and>
   NUM2INT quiet_host (RInteger (- 1)) = Inr (- 1) \<and>
   StringValuePtr (RString ''<ip/>'') = (Inr ''<ip/>'' :: (int, string) result) \<and>
   NUM2UINT quiet_host (RInteger 0) = Inr 0 \<and>
   libvirt_netw_update quiet_host no_errors sample_libvirt (Inr (Some 1))
       \<lparr>ptr = None, connection = RData 1\<rparr> (RInteger 1) (RInteger 4) (RInteger (- 1))
       (RString ''<ip/>'') (RInteger 0) =
     (rb_raise rb_eArgError ''Network has been freed'', [])"
  using freed_handle_operations_raise
    [where h = quiet_host and es = no_errors and lv = sample_libvirt and conn = "Inr (Some 1)"
       and ?n0.0 = "\<lparr>ptr = Some 4096, connection = RData 1\<rparr>"
       and n = "\<lparr>ptr = None, connection = RData 1\<rparr>"
       and tr = "[NativeCall ''virNetworkFree'' 4096]"
       and argv = "[RInteger 2]" and fl = 2 and autostart = Qtrue
       and command = "RInteger 1" and c = 1 and section_arg = "RInteger 4" and s = 4
       and index = "RInteger (- 1)" and i = "- 1" and xml = "RString ''<ip/>''" and x = "''<ip/>''"
       and flags = "RInteger 0" and f = 0]
  by (simp add: libvirt_netw_free_def gen_call_free_def sample_libvirt_def NUM2UINT_def NUM2INT_def
      rb_num2integer_def check_range_def integer_default_if_nil_def NIL_P_def StringValuePtr_def)

text \<open>
  C6 as stated fails: freeing a handle whose pointer is already null returns \<^verbatim>\<open>nil\<close>,
  raises nothing and calls nothing.
\<close>

theorem free_of_freed_handle_counterexample:
  "libvirt_netw_free quiet_host no_errors sample_libvirt (Inr (Some 1))
     \<lparr>ptr = None, connection = RData 1\<rparr> =
   (Inr Qnil, \<lparr>ptr = None, connection = RData 1\<rparr>, [])"
  by (simp add: libvirt_netw_free_def gen_call_free_def)

text \<open>
  C6, as the code has it. Freeing a handle whose pointer is null does nothing and
  returns \<^verbatim>\<open>nil\<close>. Freeing a live handle calls the native free function once; when that
  succeeds the pointer is cleared, so that a second free does nothing; when it fails the
  translated error is raised and the pointer stays.
\<close>

theorem free_of_freed_handle_is_noop:
  "(ptr n = None \<longrightarrow> libvirt_netw_free h es lv conn n = (Inr Qnil, n, [])) \<and>
   (ptr n = Some p \<and> 0 \<le> virNetworkFree lv p \<longrightarrow>
      libvirt_netw_free h es lv conn n =
        (Inr Qnil, n\<lparr>ptr := None\<rparr>, [NativeCall ''virNetworkFree'' p]) \<and>
      libvirt_netw_free h es lv conn (n\<lparr>ptr := None\<rparr>) = (Inr Qnil, n\<lparr>ptr := None\<rparr>, [])) \<and>
   (ptr n = Some p \<and> virNetworkFree lv p < 0 \<longrightarrow>
      libvirt_netw_free h es lv conn n =
        (raise_error h es e_Error ''virNetworkFree'' conn, n, [NativeCall ''virNetworkFree'' p]))"
  by (simp add: libvirt_netw_free_def gen_call_free_def Let_def)

theorem free_of_freed_handle_is_noop_witness:
  "libvirt_netw_free quiet_host no_errors sample_libvirt (Inr (Some 1))
       \<lparr>ptr = None, connection = RData 1\<rparr> =
     (Inr Qnil, \<lparr>ptr = None, connection = RData 1\<rparr>, []) \<and>
   (0::int) \<le> virNetworkFree sample_libvirt 4096 \<and>
   libvirt_netw_free quiet_host no_errors sample_libvirt (Inr (Some 1))
       \<lparr>ptr = Some 4096, connection = RData 1\<rparr> =
     (Inr Qnil, \<lparr>ptr = None, connection = RData 1\<rparr>, [NativeCall ''virNetworkFree'' 4096]) \<and>
   virNetworkFree (sample_libvirt\<lparr>virNetworkFree := (\<lambda>p. - 1)\<rparr>) 4096 < 0 \<and>
   libvirt_netw_free quiet_host no_errors (sample_libvirt\<lparr>virNetworkFree := (\<lambda>p. - 1)\<rparr>)
       (Inr (Some 1)) \<lparr>ptr = Some 4096, connection = RData 1\<rparr> =
     (raise_error quiet_host no_errors e_Error ''virNetworkFree'' (Inr (Some 1)),
      \<lparr>ptr = Some 4096, connection = RData 1\<rparr>, [NativeCall ''virNetworkFree'' 4096])"
  using free_of_freed_handle_is_noop
    [where h = quiet_host and es = no_errors and lv = sample_libvirt and conn = "Inr (Some 1)"
       and n = "\<lparr>ptr = None, connection = RData 1\<rparr>"]
    free_of_freed_handle_is_noop
    [where h = quiet_host and es = no_errors and lv = sample_libvirt and conn = "Inr (Some 1)"
       and n = "\<lparr>ptr = Some 4096, connection = RData 1\<rparr>" and p = 4096]
    free_of_freed_handle_is_noop
    [where h = quiet_host and es = no_errors
       and lv = "sample_libvirt\<lparr>virNetworkFree := (\<lambda>p. - 1)\<rparr>" and conn = "Inr (Some 1)"
       and n = "\<lparr>ptr = Some 4096, connection = RData 1\<rparr>" and p = 4096]
  by (simp add: sample_libvirt_def)

end
